theory Spec2Isabelle
  imports Complex_Main
begin

section \<open>Data model\<close>

text \<open>
  The program is Python over pandas, numpy and scikit-learn. A table cell is a number, a
  text or the missing value (pandas' NaN). Numbers are modelled as exact reals: rounding of
  64-bit floats is outside this development. A text is a cell that \<^verbatim>\<open>pd.read_csv\<close> left
  as text, so it does not read as a number.
\<close>

datatype cell = Num real | Str string | NaN

text \<open>
  A dataframe: its row count and its columns in order, each a label with one cell per row.
  Row labels are the default index \<open>0 .. nrows - 1\<close> that \<^verbatim>\<open>pd.read_csv\<close> and
  \<^verbatim>\<open>pd.DataFrame(array)\<close> produce, so rows are identified with their position.
\<close>

record frame =
  nrows :: nat
  columns :: "(string \<times> cell list) list"

text \<open>The exceptions the code and the library calls it makes can raise.\<close>

datatype error =
    AssertionError string
  | MaskLengthError nat nat
      \<comment> \<open>the assertion \<^verbatim>\<open>'mask length {} does not match dataframe length {}'\<close>\<close>
  | ValueError string
  | KeyError string
  | TypeError
  | ZeroDivisionError
  | IndexError
  | AttributeError
  | OSError

text \<open>A Python value as the attributes of \<^verbatim>\<open>data_base\<close> hold it.\<close>

datatype pyval =
    PNone
  | PStr string
  | PFrame frame
  | PSeries string "cell list"
  | PArray "cell list"

text \<open>
  What the code takes from its surroundings: \<^verbatim>\<open>os.path.isfile\<close>, the join of a path
  with the module's directory, the rows \<^verbatim>\<open>csv.reader\<close> yields for a file, the table
  \<^verbatim>\<open>pd.read_csv\<close> parses from it, Python's text for a number (it names the indicator
  columns), and the order in which the seeded generator of a split shuffles \<open>0 .. n - 1\<close>.
\<close>

record env =
  isfile :: "string \<Rightarrow> bool"
  join_dir :: "string \<Rightarrow> string"
  csv_rows :: "string \<Rightarrow> error + string list list"
  read_csv :: "string \<Rightarrow> error + frame"
  num_str :: "real \<Rightarrow> string"
  shuffled :: "nat \<Rightarrow> nat list"

section \<open>Library operations on tables\<close>

definition names :: "frame \<Rightarrow> string list" where
  "names df = map fst (columns df)"

text \<open>Every column of a table has one cell per row.\<close>

definition rect :: "frame \<Rightarrow> bool" where
  "rect df = list_all (\<lambda>c. length (snd c) = nrows df) (columns df)"

text \<open>
  \<^verbatim>\<open>df[name]\<close>: the column labelled \<open>name\<close>, KeyError when there is none. Labels are
  taken to be distinct where a column is read by its label, as \<^verbatim>\<open>pd.read_csv\<close> makes
  them; \<^verbatim>\<open>drop\<close> below removes every column that carries a label.
\<close>

definition get_col :: "frame \<Rightarrow> string \<Rightarrow> error + cell list" where
  "get_col df name =
     (case map_of (columns df) name of None \<Rightarrow> Inl (KeyError name) | Some c \<Rightarrow> Inr c)"

text \<open>\<^verbatim>\<open>df[name] = values\<close> for a label the table already has.\<close>

definition set_col :: "frame \<Rightarrow> string \<Rightarrow> cell list \<Rightarrow> frame" where
  "set_col df name vals =
     df\<lparr>columns := map (\<lambda>(n, c). if n = name then (n, vals) else (n, c)) (columns df)\<rparr>"

text \<open>
  \<^verbatim>\<open>df.drop(labels, axis=1)\<close>: KeyError when a label is not a column; every column carrying
  one of the labels goes.
\<close>

definition drop_labels :: "frame \<Rightarrow> string list \<Rightarrow> error + frame" where
  "drop_labels df ls =
     (case filter (\<lambda>l. l \<notin> set (names df)) ls of
        l # _ \<Rightarrow> Inl (KeyError l)
      | [] \<Rightarrow> Inr (df\<lparr>columns := filter (\<lambda>c. fst c \<notin> set ls) (columns df)\<rparr>))"

definition drop_label :: "frame \<Rightarrow> string \<Rightarrow> error + frame" where
  "drop_label df l = drop_labels df [l]"

text \<open>\<^verbatim>\<open>df.columns[idxs]\<close>: the labels at the positions, IndexError out of range.\<close>

definition labels_at :: "frame \<Rightarrow> nat list \<Rightarrow> error + string list" where
  "labels_at df idxs =
     (if list_all (\<lambda>i. i < length (columns df)) idxs
      then Inr (map (\<lambda>i. names df ! i) idxs) else Inl IndexError)"

section \<open>The column mask applier\<close>

text \<open>Python's \<^verbatim>\<open>str.strip()\<close>: white space off both ends.\<close>

definition is_space :: "char \<Rightarrow> bool" where
  "is_space c = (c \<in> {CHR '' '', CHR 0x09, CHR 0x0A, CHR 0x0B, CHR 0x0C, CHR 0x0D,
                       CHR 0x1C, CHR 0x1D, CHR 0x1E, CHR 0x1F, CHR 0x85, CHR 0xA0})"

definition strip :: "string \<Rightarrow> string" where
  "strip s = rev (dropWhile is_space (rev (dropWhile is_space s)))"

text \<open>\<^verbatim>\<open>del mask[i]\<close>; the loop only deletes positions that exist.\<close>

definition del_at :: "nat \<Rightarrow> 'a list \<Rightarrow> 'a list" where
  "del_at i xs = take i xs @ drop (Suc i) xs"

text \<open>
  The loop of \<^verbatim>\<open>remove_extra_entries\<close> over \<^verbatim>\<open>reversed(list(enumerate(mask)))\<close>:
  the first boolean token met from the end breaks, any other token is deleted.
\<close>

fun remove_loop :: "(nat \<times> string) list \<Rightarrow> string list \<Rightarrow> string list" where
  "remove_loop [] tokens = tokens"
| "remove_loop ((i, col) # rest) tokens =
     (if strip col = ''True'' \<or> strip col = ''False'' then tokens
      else remove_loop rest (del_at i tokens))"

definition remove_extra_entries :: "string list \<Rightarrow> string list" where
  "remove_extra_entries tokens = remove_loop (rev (enumerate 0 tokens)) tokens"

text \<open>
  \<^verbatim>\<open>for i, col in enumerate(column_mask): if col.strip() == 'False': column_indexes.append(i)\<close>
\<close>

fun collect_false :: "(nat \<times> string) list \<Rightarrow> nat list \<Rightarrow> nat list" where
  "collect_false [] column_indexes = column_indexes"
| "collect_false ((i, col) # rest) column_indexes =
     collect_false rest (if strip col = ''False'' then column_indexes @ [i] else column_indexes)"

text \<open>
  The body of \<^verbatim>\<open>for dataframe in args\<close>. The mask and the index list live outside the
  loop, so both are threaded through it; \<open>updated_args\<close> collects the results.
\<close>

fun apply_loop ::
  "frame list \<Rightarrow> string list \<Rightarrow> nat list \<Rightarrow> frame list \<Rightarrow> error + frame list" where
  "apply_loop [] column_mask column_indexes updated_args = Inr updated_args"
| "apply_loop (dataframe # args) column_mask column_indexes updated_args =
     (let column_mask' =
            (if length column_mask \<noteq> length (names dataframe)
             then remove_extra_entries column_mask else column_mask)
      in if length column_mask' \<noteq> length (names dataframe)
         then Inl (MaskLengthError (length column_mask') (length (names dataframe)))
         else
           let column_indexes' = collect_false (enumerate 0 column_mask') column_indexes
           in case labels_at dataframe column_indexes' of
                Inl e \<Rightarrow> Inl e
              | Inr ls \<Rightarrow>
                  (case drop_labels dataframe ls of
                     Inl e \<Rightarrow> Inl e
                   | Inr d \<Rightarrow> apply_loop args column_mask' column_indexes' (updated_args @ [d])))"

definition apply_RFECV_mask :: "env \<Rightarrow> string \<Rightarrow> frame list \<Rightarrow> error + frame list" where
  "apply_RFECV_mask ev mask_path args =
     (if \<not> isfile ev mask_path
      then Inl (AssertionError ''please pass a string specifying mask location'')
      else case csv_rows ev (join_dir ev mask_path) of
             Inl e \<Rightarrow> Inl e
           | Inr [] \<Rightarrow> Inl IndexError
           | Inr (column_mask # _) \<Rightarrow> apply_loop args column_mask [] [])"

section \<open>Helpers of the dataset manager\<close>

text \<open>Sequencing of calls that may raise: the first exception ends the computation.\<close>

definition bind_err :: "error + 'a \<Rightarrow> ('a \<Rightarrow> error + 'b) \<Rightarrow> error + 'b" where
  "bind_err m f = (case m of Inl e \<Rightarrow> Inl e | Inr x \<Rightarrow> f x)"

text \<open>A \<^verbatim>\<open>for\<close> loop whose body updates a state and may raise.\<close>

fun for_each :: "('s \<Rightarrow> 'a \<Rightarrow> error + 's) \<Rightarrow> 's \<Rightarrow> 'a list \<Rightarrow> error + 's" where
  "for_each body s [] = Inr s"
| "for_each body s (x # xs) =
     (case body s x of Inl e \<Rightarrow> Inl e | Inr s' \<Rightarrow> for_each body s' xs)"

text \<open>Where the code uses a value as a dataframe; any other value has no such attribute.\<close>

definition as_frame :: "pyval \<Rightarrow> error + frame" where
  "as_frame v = (case v of PFrame df \<Rightarrow> Inr df | _ \<Rightarrow> Inl AttributeError)"

subsection \<open>Mean imputation\<close>

text \<open>\<^verbatim>\<open>series.fillna(value)\<close>: a new series, the missing cells replaced.\<close>

definition fillna :: "cell list \<Rightarrow> cell \<Rightarrow> cell list" where
  "fillna vals v = map (\<lambda>c. if c = NaN then v else c) vals"

text \<open>
  The accumulation loop of \<^verbatim>\<open>fill_nan\<close>; \<^verbatim>\<open>np.isnan\<close> raises TypeError on a text.
\<close>

fun fill_nan_loop :: "cell list \<Rightarrow> nat \<Rightarrow> real \<Rightarrow> error + nat \<times> real" where
  "fill_nan_loop [] count tot = Inr (count, tot)"
| "fill_nan_loop (Num val # vals) count tot = fill_nan_loop vals (count + 1) (tot + val)"
| "fill_nan_loop (NaN # vals) count tot = fill_nan_loop vals count tot"
| "fill_nan_loop (Str t # vals) count tot = Inl TypeError"

definition fill_nan :: "frame \<Rightarrow> string \<Rightarrow> error + frame" where
  "fill_nan data column =
     bind_err (get_col data column) (\<lambda>vals.
     bind_err (fill_nan_loop vals 0 0) (\<lambda>(count, tot).
       if count = 0 then Inl ZeroDivisionError
       else Inr (set_col data column (fillna vals (Num (tot / real count))))))"

text \<open>
  \<^verbatim>\<open>series.mean()\<close>: the mean of the cells present, NaN when there is none; a text
  column has no mean.
\<close>

definition nums :: "cell list \<Rightarrow> real list" where
  "nums vals = concat (map (\<lambda>c. case c of Num x \<Rightarrow> [x] | _ \<Rightarrow> []) vals)"

definition has_text :: "cell list \<Rightarrow> bool" where
  "has_text vals = list_ex (\<lambda>c. case c of Str t \<Rightarrow> True | _ \<Rightarrow> False) vals"

definition series_mean :: "cell list \<Rightarrow> error + cell" where
  "series_mean vals =
     (if has_text vals then Inl TypeError
      else if nums vals = [] then Inr NaN
      else Inr (Num (sum_list (nums vals) / real (length (nums vals)))))"

subsection \<open>One-hot encoding\<close>

text \<open>
  \<^verbatim>\<open>pd.concat([a, b], axis=1)\<close> on default row labels: the columns of both, a shorter
  table padded with NaN.
\<close>

definition pad :: "nat \<Rightarrow> string \<times> cell list \<Rightarrow> string \<times> cell list" where
  "pad n c = (fst c, snd c @ replicate (n - length (snd c)) NaN)"

definition concat_cols :: "frame \<Rightarrow> frame \<Rightarrow> frame" where
  "concat_cols a b =
     \<lparr>nrows = max (nrows a) (nrows b),
      columns = map (pad (max (nrows a) (nrows b))) (columns a @ columns b)\<rparr>"

text \<open>
  The order in which pandas sorts the categories of a column: numbers by value, before
  texts, texts by code point.
\<close>

fun str_le :: "string \<Rightarrow> string \<Rightarrow> bool" where
  "str_le [] t = True"
| "str_le (a # s) [] = False"
| "str_le (a # s) (b # t) =
     ((of_char a :: nat) < of_char b \<or> (of_char a :: nat) = of_char b \<and> str_le s t)"

fun cell_le :: "cell \<Rightarrow> cell \<Rightarrow> bool" where
  "cell_le (Num x) (Num y) = (x \<le> y)"
| "cell_le (Num x) (Str t) = True"
| "cell_le (Num x) NaN = True"
| "cell_le (Str s) (Num y) = False"
| "cell_le (Str s) (Str t) = str_le s t"
| "cell_le (Str s) NaN = True"
| "cell_le NaN c = (c = NaN)"

fun insort_cell :: "cell \<Rightarrow> cell list \<Rightarrow> cell list" where
  "insort_cell c [] = [c]"
| "insort_cell c (d # ds) = (if cell_le c d then c # d # ds else d # insort_cell c ds)"

definition sort_cells :: "cell list \<Rightarrow> cell list" where
  "sort_cells cs = foldr insort_cell cs []"

text \<open>The distinct categories observed in a column; a missing cell is no category.\<close>

definition categories :: "cell list \<Rightarrow> cell list" where
  "categories vals = sort_cells (remdups (filter (\<lambda>c. c \<noteq> NaN) vals))"

definition cell_str :: "env \<Rightarrow> cell \<Rightarrow> string" where
  "cell_str ev c = (case c of Num x \<Rightarrow> num_str ev x | Str t \<Rightarrow> t | NaN \<Rightarrow> ''nan'')"

definition indicator :: "cell \<Rightarrow> cell list \<Rightarrow> cell list" where
  "indicator cat vals = map (\<lambda>v. Num (if v = cat then 1 else 0)) vals"

text \<open>
  \<^verbatim>\<open>pd.get_dummies(series, prefix=prefix)\<close>: one 0/1 column per category, labelled
  \<^verbatim>\<open>prefix_category\<close>; a row whose cell is missing has 0 in each of them.
\<close>

definition get_dummies :: "env \<Rightarrow> cell list \<Rightarrow> string \<Rightarrow> frame" where
  "get_dummies ev vals prefix =
     \<lparr>nrows = length vals,
      columns = map (\<lambda>cat. (prefix @ ''_'' @ cell_str ev cat, indicator cat vals))
                    (categories vals)\<rparr>"

definition one_hot_encode :: "env \<Rightarrow> pyval \<Rightarrow> string \<Rightarrow> error + frame" where
  "one_hot_encode ev dataframe category =
     (case dataframe of
        PFrame df \<Rightarrow>
          bind_err (get_col df category) (\<lambda>vals.
            let dummy = get_dummies ev vals category;
                dataframe' = concat_cols df dummy
            in drop_label dataframe' category)
      | _ \<Rightarrow> Inl (AssertionError ''data argument needs to be pandas dataframe''))"

subsection \<open>Normalisation\<close>

text \<open>
  \<^verbatim>\<open>MinMaxScaler().fit_transform\<close> of scikit-learn, column by column: minimum and
  maximum over the cells present, a zero range replaced by 1 before the division
  (its \<^verbatim>\<open>_handle_zeros_in_scale\<close>), then \<^verbatim>\<open>x * scale_ + min_\<close>; a missing cell stays
  missing. The input check rejects a table without rows or without columns and a cell that
  is no number.
\<close>

definition handle_zeros_in_scale :: "real \<Rightarrow> real" where
  "handle_zeros_in_scale r = (if r = 0 then 1 else r)"

definition scale_cell :: "real \<Rightarrow> real \<Rightarrow> cell \<Rightarrow> cell" where
  "scale_cell scale min0 c = (case c of Num x \<Rightarrow> Num (x * scale + min0) | _ \<Rightarrow> c)"

definition minmax_column :: "cell list \<Rightarrow> cell list" where
  "minmax_column vals =
     (case nums vals of
        [] \<Rightarrow> vals
      | x # xs \<Rightarrow>
          let data_min = fold min xs x;
              data_max = fold max xs x;
              scale = 1 / handle_zeros_in_scale (data_max - data_min);
              min0 = 0 - data_min * scale
          in map (scale_cell scale min0) vals)"

definition fit_transform :: "frame \<Rightarrow> error + cell list list" where
  "fit_transform data =
     (if list_ex (\<lambda>c. has_text (snd c)) (columns data)
      then Inl (ValueError ''could not convert string to float'')
      else if nrows data = 0 \<or> columns data = []
      then Inl (ValueError ''Found array with 0 sample(s) or 0 feature(s)'')
      else Inr (map (\<lambda>c. minmax_column (snd c)) (columns data)))"

text \<open>
  \<^verbatim>\<open>normalize_and_reshape(data, labels)\<close>: the scaled array becomes a table under the
  old column labels, the series \<open>labels\<close> is put in front of it, and the row labels,
  already \<open>0 .. nrows - 1\<close>, are reset to that range.
\<close>

definition normalize_and_reshape :: "frame \<Rightarrow> string \<times> cell list \<Rightarrow> error + frame" where
  "normalize_and_reshape data labels =
     bind_err (fit_transform data) (\<lambda>norm_df.
       let data' = \<lparr>nrows = nrows data, columns = zip (names data) norm_df\<rparr>
       in Inr (concat_cols \<lparr>nrows = length (snd labels), columns = [labels]\<rparr> data'))"

section \<open>The dataset manager\<close>

text \<open>
  The class \<^verbatim>\<open>data_base\<close>. Each field is the private attribute of the same name
  (\<^verbatim>\<open>self._raw_data\<close> and so on); \<^verbatim>\<open>__init__\<close> sets every one to None.
\<close>

record data_base =
  priv_raw_data :: pyval
  priv_clean_X_data :: pyval
  priv_target :: pyval
  priv_X_train :: pyval
  priv_Y_train :: pyval
  priv_X_test :: pyval
  priv_Y_test :: pyval
  priv_test_accession_numbers :: pyval
  priv_original :: pyval
  priv_predict :: pyval

definition init :: data_base where
  "init = \<lparr>priv_raw_data = PNone, priv_clean_X_data = PNone, priv_target = PNone,
           priv_X_train = PNone, priv_Y_train = PNone, priv_X_test = PNone, priv_Y_test = PNone,
           priv_test_accession_numbers = PNone, priv_original = PNone, priv_predict = PNone\<rparr>"

definition categorical_data :: "string list" where
  "categorical_data = [''Enzyme Commission Number'', ''Particle Size'', ''Particle Charge'',
                       ''Solvent Cysteine Concentration'', ''Solvent NaCl Concentration'']"

definition columns_to_drop :: "string list" where
  "columns_to_drop = [''Protein Length'', ''Sequence'', ''Accession Number'', ''Bound Fraction'']"

subsection \<open>Reading a table from a file\<close>

definition fetch_raw_data :: "env \<Rightarrow> string \<Rightarrow> error + frame" where
  "fetch_raw_data ev enm_database =
     (if \<not> isfile ev enm_database
      then Inl (AssertionError ''please pass a string specifying database location'')
      else case read_csv ev (join_dir ev enm_database) of
             Inl (ValueError m) \<Rightarrow> Inl (ValueError ''File is not a valid csv'')
           | Inl e \<Rightarrow> Inl e
           | Inr raw_data \<Rightarrow> Inr raw_data)"

subsection \<open>Property getters\<close>

definition X_train :: "data_base \<Rightarrow> error + pyval" where
  "X_train self =
     (if priv_X_train self = PNone
      then Inl (ValueError ''Initialize X_train by calling stratified_data_split()'')
      else Inr (priv_X_train self))"

definition X_test :: "data_base \<Rightarrow> error + pyval" where
  "X_test self =
     (if priv_X_test self = PNone
      then Inl (ValueError ''Initialize X_test by calling stratified_data_split()'')
      else Inr (priv_X_test self))"

definition Y_train :: "data_base \<Rightarrow> error + pyval" where
  "Y_train self =
     (if priv_Y_train self = PNone
      then Inl (ValueError ''Initialize Y_train by calling stratified_data_split()'')
      else Inr (priv_Y_train self))"

definition Y_test :: "data_base \<Rightarrow> error + pyval" where
  "Y_test self = Inr (priv_Y_test self)"

definition raw_data :: "data_base \<Rightarrow> error + pyval" where
  "raw_data self =
     (if priv_raw_data self = PNone
      then Inl (ValueError ''Initialize raw data by setting raw_data=<path.csv>'')
      else Inr (priv_raw_data self))"

definition clean_X_data :: "data_base \<Rightarrow> error + pyval" where
  "clean_X_data self =
     (if priv_clean_X_data self = PNone
      then Inl (ValueError ''Initialize clean_X_data by calling clean_data()'')
      else Inr (priv_clean_X_data self))"

definition original :: "data_base \<Rightarrow> error + pyval" where
  "original self =
     (if priv_original self = PNone
      then Inl (ValueError ''Initialize original by calling clean_data()'')
      else Inr (priv_original self))"

definition target :: "data_base \<Rightarrow> error + pyval" where
  "target self =
     (if priv_target self = PNone
      then Inl (ValueError ''Initialize target by calling clean_data()'')
      else Inr (priv_target self))"

definition test_accession_numbers :: "data_base \<Rightarrow> error + pyval" where
  "test_accession_numbers self =
     (if priv_test_accession_numbers self = PNone
      then Inl (ValueError ''Initialize test_accession_numbers by calling stratified_data_split()'')
      else Inr (priv_test_accession_numbers self))"

definition predict :: "data_base \<Rightarrow> error + pyval" where
  "predict self = Inr (priv_predict self)"

subsection \<open>Property setters\<close>

text \<open>
  \<^verbatim>\<open>isinstance(path, str) and os.path.isfile(path)\<close>, the test the setters share.
\<close>

definition is_file_path :: "env \<Rightarrow> pyval \<Rightarrow> bool" where
  "is_file_path ev path = (case path of PStr p \<Rightarrow> isfile ev p | _ \<Rightarrow> False)"

definition path_of :: "pyval \<Rightarrow> string" where
  "path_of path = (case path of PStr p \<Rightarrow> p | _ \<Rightarrow> [])"

definition set_X_train :: "env \<Rightarrow> data_base \<Rightarrow> pyval \<Rightarrow> error + data_base" where
  "set_X_train ev self path =
     (if is_file_path ev path
      then bind_err (fetch_raw_data ev (path_of path))
             (\<lambda>df. Inr (self\<lparr>priv_X_train := PFrame df\<rparr>))
      else Inr (self\<lparr>priv_X_train := path\<rparr>))"

definition set_X_test :: "env \<Rightarrow> data_base \<Rightarrow> pyval \<Rightarrow> error + data_base" where
  "set_X_test ev self path =
     (if is_file_path ev path
      then bind_err (fetch_raw_data ev (path_of path))
             (\<lambda>df. Inr (self\<lparr>priv_X_test := PFrame df\<rparr>))
      else Inr (self\<lparr>priv_X_test := path\<rparr>))"

definition set_Y_train :: "env \<Rightarrow> data_base \<Rightarrow> pyval \<Rightarrow> error + data_base" where
  "set_Y_train ev self path =
     (if is_file_path ev path
      then bind_err (fetch_raw_data ev (path_of path))
             (\<lambda>df. Inr (self\<lparr>priv_Y_train := PFrame df\<rparr>))
      else Inr (self\<lparr>priv_Y_train := path\<rparr>))"

definition set_Y_test :: "env \<Rightarrow> data_base \<Rightarrow> pyval \<Rightarrow> error + data_base" where
  "set_Y_test ev self path =
     (if is_file_path ev path
      then bind_err (fetch_raw_data ev (path_of path))
             (\<lambda>df. Inr (self\<lparr>priv_Y_test := PFrame df\<rparr>))
      else Inr (self\<lparr>priv_Y_test := path\<rparr>))"

definition set_raw_data :: "env \<Rightarrow> data_base \<Rightarrow> pyval \<Rightarrow> error + data_base" where
  "set_raw_data ev self enm_database =
     (if is_file_path ev enm_database
      then bind_err (fetch_raw_data ev (path_of enm_database))
             (\<lambda>df. Inr (self\<lparr>priv_raw_data := PFrame df\<rparr>))
      else Inr (self\<lparr>priv_raw_data := enm_database\<rparr>))"

text \<open>
  The setter of \<^verbatim>\<open>clean_X_data\<close> assigns the table it read through itself; a table is
  no text, so that second pass stores it.
\<close>

definition set_clean_X_data :: "env \<Rightarrow> data_base \<Rightarrow> pyval \<Rightarrow> error + data_base" where
  "set_clean_X_data ev self path =
     (if is_file_path ev path
      then bind_err (fetch_raw_data ev (path_of path))
             (\<lambda>df. Inr (self\<lparr>priv_clean_X_data := PFrame df\<rparr>))
      else Inr (self\<lparr>priv_clean_X_data := path\<rparr>))"

definition set_test_accession_numbers :: "env \<Rightarrow> data_base \<Rightarrow> pyval \<Rightarrow> error + data_base" where
  "set_test_accession_numbers ev self path =
     (if is_file_path ev path then Inr self
      else Inr (self\<lparr>priv_test_accession_numbers := path\<rparr>))"

subsection \<open>Cleaning\<close>

text \<open>\<^verbatim>\<open>df[name]\<close> as a series, which keeps the label.\<close>

definition get_series :: "frame \<Rightarrow> string \<Rightarrow> error + string \<times> cell list" where
  "get_series df name = bind_err (get_col df name) (\<lambda>vals. Inr (name, vals))"

text \<open>
  \<^verbatim>\<open>self.clean_X_data = one_hot_encode(self.clean_X_data, category)\<close>, the body of the
  first loop of \<^verbatim>\<open>clean_raw_data\<close>, and \<^verbatim>\<open>self.clean_X_data = self.clean_X_data.drop(column, 1)\<close>,
  the body of its second.
\<close>

definition encode_step :: "env \<Rightarrow> data_base \<Rightarrow> string \<Rightarrow> error + data_base" where
  "encode_step ev self category =
     bind_err (clean_X_data self) (\<lambda>c.
     bind_err (one_hot_encode ev c category) (\<lambda>df.
       set_clean_X_data ev self (PFrame df)))"

definition drop_step :: "env \<Rightarrow> data_base \<Rightarrow> string \<Rightarrow> error + data_base" where
  "drop_step ev self column =
     bind_err (clean_X_data self) (\<lambda>c.
     bind_err (as_frame c) (\<lambda>df.
     bind_err (drop_label df column) (\<lambda>df'.
       set_clean_X_data ev self (PFrame df'))))"

text \<open>
  \<^verbatim>\<open>clean_raw_data\<close>, in the four blocks its comments mark. First
  \<^verbatim>\<open>self.clean_X_data = self.raw_data\<close> and the encoding loop.
\<close>

definition encode_categoricals :: "env \<Rightarrow> data_base \<Rightarrow> error + data_base" where
  "encode_categoricals ev self =
     bind_err (raw_data self) (\<lambda>raw.
     bind_err (set_clean_X_data ev self raw) (\<lambda>self.
       for_each (encode_step ev) self categorical_data))"

text \<open>
  Then the target and the identifiers. The series that \<^verbatim>\<open>fillna\<close> returns for
  \<^verbatim>\<open>Bound Fraction\<close> is bound to nothing, so the table keeps its cells and
  \<^verbatim>\<open>to_numpy()\<close> copies the column as it was.
\<close>

definition capture_target ::
  "env \<Rightarrow> data_base \<Rightarrow> error + data_base \<times> (string \<times> cell list)" where
  "capture_target ev self =
     bind_err (clean_X_data self) (\<lambda>c.
     bind_err (as_frame c) (\<lambda>df.
     bind_err (get_col df ''Bound Fraction'') (\<lambda>bound.
     bind_err (series_mean bound) (\<lambda>mean.
       let unused = fillna bound mean;
           self = self\<lparr>priv_target := PArray bound\<rparr>
       in
     bind_err (target self) (\<lambda>t.
     bind_err (set_Y_train ev self t) (\<lambda>self.
     bind_err (get_series df ''Accession Number'') (\<lambda>accession_numbers.
       Inr (self, accession_numbers))))))))"

text \<open>Then the loop that drops the columns, and the imputation of the abundance.\<close>

definition drop_and_impute :: "env \<Rightarrow> data_base \<Rightarrow> error + data_base" where
  "drop_and_impute ev self =
     bind_err (for_each (drop_step ev) self columns_to_drop) (\<lambda>self.
     bind_err (clean_X_data self) (\<lambda>c.
     bind_err (as_frame c) (\<lambda>df.
     bind_err (fill_nan df ''Protein Abundance'') (\<lambda>df.
       set_clean_X_data ev self (PFrame df)))))"

text \<open>Last the snapshot \<^verbatim>\<open>self._original\<close>, the normalisation and \<^verbatim>\<open>self.X_train\<close>.\<close>

definition snapshot_and_normalize ::
  "env \<Rightarrow> data_base \<Rightarrow> string \<times> cell list \<Rightarrow> error + data_base" where
  "snapshot_and_normalize ev self accession_numbers =
     bind_err (clean_X_data self) (\<lambda>c.
       let self = self\<lparr>priv_original := c\<rparr> in
     bind_err (clean_X_data self) (\<lambda>c.
     bind_err (as_frame c) (\<lambda>df.
     bind_err (normalize_and_reshape df accession_numbers) (\<lambda>df.
     bind_err (set_clean_X_data ev self (PFrame df)) (\<lambda>self.
     bind_err (clean_X_data self) (\<lambda>c.
       set_X_train ev self c))))))"

definition clean_raw_data :: "env \<Rightarrow> data_base \<Rightarrow> error + data_base" where
  "clean_raw_data ev self =
     bind_err (encode_categoricals ev self) (\<lambda>self.
     bind_err (capture_target ev self) (\<lambda>captured.
     bind_err (drop_and_impute ev (fst captured)) (\<lambda>self.
       snapshot_and_normalize ev self (snd captured))))"

text \<open>
  \<^verbatim>\<open>clean_user_test_data\<close>: the same steps on the caller's table, the results stored as
  the test partition; at the end the identifier column leaves the train and the test
  features.
\<close>

definition strip_accession ::
  "env \<Rightarrow> data_base \<Rightarrow> error + data_base" where
  "strip_accession ev self =
     bind_err (X_train self) (\<lambda>tr.
     bind_err (as_frame tr) (\<lambda>tr.
     bind_err (drop_label tr ''Accession Number'') (\<lambda>tr.
     bind_err (set_X_train ev self (PFrame tr)) (\<lambda>self.
     bind_err (X_test self) (\<lambda>te.
     bind_err (as_frame te) (\<lambda>te.
     bind_err (drop_label te ''Accession Number'') (\<lambda>te.
       set_X_test ev self (PFrame te))))))))"

definition keep_test_accession :: "env \<Rightarrow> data_base \<Rightarrow> error + data_base" where
  "keep_test_accession ev self =
     bind_err (X_test self) (\<lambda>te.
     bind_err (as_frame te) (\<lambda>te.
     bind_err (get_series te ''Accession Number'') (\<lambda>acc.
       set_test_accession_numbers ev self (PSeries (fst acc) (snd acc)))))"

definition clean_user_test_data :: "env \<Rightarrow> data_base \<Rightarrow> pyval \<Rightarrow> error + data_base" where
  "clean_user_test_data ev self user_data =
     bind_err (for_each (\<lambda>u category. bind_err (one_hot_encode ev u category) (\<lambda>df. Inr (PFrame df)))
                 user_data categorical_data) (\<lambda>user_data.
     bind_err (as_frame user_data) (\<lambda>df.
     bind_err (get_col df ''Bound Fraction'') (\<lambda>bound.
     bind_err (set_Y_test ev self (PArray bound)) (\<lambda>self.
     bind_err (get_series df ''Accession Number'') (\<lambda>accession_numbers.
     bind_err (for_each drop_label df columns_to_drop) (\<lambda>df.
     bind_err (fill_nan df ''Protein Abundance'') (\<lambda>df.
     bind_err (normalize_and_reshape df accession_numbers) (\<lambda>df.
     bind_err (set_X_test ev self (PFrame df)) (\<lambda>self.
     bind_err (keep_test_accession ev self) (\<lambda>self.
       strip_accession ev self))))))))))"

text \<open>
  The setter of \<^verbatim>\<open>predict\<close> calls \<^verbatim>\<open>os.path.isfile(path)\<close> with no test of the type
  before it, and \<^verbatim>\<open>os.path.isfile\<close> raises TypeError for a value that is no path.
\<close>

definition set_predict :: "env \<Rightarrow> data_base \<Rightarrow> pyval \<Rightarrow> error + data_base" where
  "set_predict ev self path =
     (case path of
        PStr p \<Rightarrow>
          if isfile ev p
          then bind_err (fetch_raw_data ev p) (\<lambda>df.
                 clean_user_test_data ev (self\<lparr>priv_predict := PFrame df\<rparr>) (PFrame df))
          else Inr (self\<lparr>priv_predict := path\<rparr>)
      | _ \<Rightarrow> Inl TypeError)"

subsection \<open>Splitting\<close>

text \<open>
  \<^verbatim>\<open>KFold(n_splits=5, shuffle=True, random_state=seed).split(X)\<close> of scikit-learn: it
  refuses fewer samples than folds; the shuffled positions are cut into five consecutive
  runs, the first \<open>n mod 5\<close> of them one longer; a fold tests the positions of one run
  and trains on the others, both in ascending order.
\<close>

definition fold_sizes :: "nat \<Rightarrow> nat list" where
  "fold_sizes n_samples =
     map (\<lambda>i. n_samples div 5 + (if i < n_samples mod 5 then 1 else 0)) [0..<5]"

fun iter_test_indices :: "nat list \<Rightarrow> nat \<Rightarrow> nat list \<Rightarrow> nat list list" where
  "iter_test_indices indices current [] = []"
| "iter_test_indices indices current (fold_size # rest) =
     take fold_size (drop current indices)
       # iter_test_indices indices (current + fold_size) rest"

definition fold_of :: "nat \<Rightarrow> nat list \<Rightarrow> nat list \<times> nat list" where
  "fold_of n_samples test =
     (filter (\<lambda>i. i \<notin> set test) [0..<n_samples], filter (\<lambda>i. i \<in> set test) [0..<n_samples])"

definition kfold_split :: "env \<Rightarrow> nat \<Rightarrow> error + (nat list \<times> nat list) list" where
  "kfold_split ev n_samples =
     (if 5 > n_samples
      then Inl (ValueError ''Cannot have number of splits n_splits=5 greater than the number of samples'')
      else Inr (map (fold_of n_samples)
                  (iter_test_indices (shuffled ev n_samples) 0 (fold_sizes n_samples))))"

text \<open>\<^verbatim>\<open>df.iloc[list(index)]\<close> and \<^verbatim>\<open>array[index]\<close>: the rows at the positions.\<close>

definition take_rows :: "frame \<Rightarrow> nat list \<Rightarrow> frame" where
  "take_rows df idxs =
     \<lparr>nrows = length idxs,
      columns = map (\<lambda>c. (fst c, map (\<lambda>i. snd c ! i) idxs)) (columns df)\<rparr>"

definition iloc :: "frame \<Rightarrow> nat list \<Rightarrow> error + frame" where
  "iloc df idxs =
     (if list_all (\<lambda>i. i < nrows df) idxs then Inr (take_rows df idxs) else Inl IndexError)"

definition array_take :: "pyval \<Rightarrow> nat list \<Rightarrow> error + pyval" where
  "array_take v idxs =
     (case v of
        PArray a \<Rightarrow>
          if list_all (\<lambda>i. i < length a) idxs then Inr (PArray (map (\<lambda>i. a ! i) idxs))
          else Inl IndexError
      | _ \<Rightarrow> Inl TypeError)"

text \<open>The body of the loop over the folds: each fold overwrites the four partitions.\<close>

definition split_step :: "env \<Rightarrow> data_base \<Rightarrow> nat list \<times> nat list \<Rightarrow> error + data_base" where
  "split_step ev self fold_pair =
     (let train_index = fst fold_pair; test_index = snd fold_pair in
      bind_err (clean_X_data self) (\<lambda>c.
      bind_err (as_frame c) (\<lambda>df.
      bind_err (iloc df train_index) (\<lambda>x_train.
      bind_err (iloc df test_index) (\<lambda>x_test.
      bind_err (set_X_train ev self (PFrame x_train)) (\<lambda>self.
      bind_err (set_X_test ev self (PFrame x_test)) (\<lambda>self.
      bind_err (target self) (\<lambda>t.
      bind_err (array_take t train_index) (\<lambda>y_train.
      bind_err (array_take t test_index) (\<lambda>y_test.
      bind_err (set_Y_train ev self y_train) (\<lambda>self.
        set_Y_test ev self y_test)))))))))))"

definition data_split :: "env \<Rightarrow> data_base \<Rightarrow> error + data_base" where
  "data_split ev self =
     bind_err (predict self) (\<lambda>p.
       if p \<noteq> PNone then Inl (AssertionError ''Remove data_split() if using your own data'')
       else
     bind_err (clean_X_data self) (\<lambda>c.
     bind_err (as_frame c) (\<lambda>df.
     bind_err (kfold_split ev (nrows df)) (\<lambda>folds.
     bind_err (for_each (split_step ev) self folds) (\<lambda>self.
     bind_err (keep_test_accession ev self) (\<lambda>self.
       strip_accession ev self))))))"

section \<open>Notions the statements use\<close>

text \<open>
  A token that is \<^verbatim>\<open>True\<close> or \<^verbatim>\<open>False\<close> once trimmed, the test at which
  \<^verbatim>\<open>remove_extra_entries\<close> breaks; the positions of a mask whose token is \<^verbatim>\<open>False\<close>
  once trimmed; and two counts.
\<close>

definition is_bool_token :: "string \<Rightarrow> bool" where
  "is_bool_token col = (strip col = ''True'' \<or> strip col = ''False'')"

definition false_positions :: "string list \<Rightarrow> nat list" where
  "false_positions tokens =
     map fst (filter (\<lambda>p. strip (snd p) = ''False'') (enumerate 0 tokens))"

definition count_true :: "string list \<Rightarrow> nat" where
  "count_true tokens = length (filter (\<lambda>c. strip c = ''True'') tokens)"

definition count_not_false :: "string list \<Rightarrow> nat" where
  "count_not_false tokens = length (filter (\<lambda>c. strip c \<noteq> ''False'') tokens)"

text \<open>
  The reconciliation as the specification words it: tokens leave the end of the mask
  until the length is the wanted one or the last token is boolean.
\<close>

fun spec_strip :: "nat \<Rightarrow> string list \<Rightarrow> string list" where
  "spec_strip n [] = []"
| "spec_strip n (col # rest) =
     (if Suc (length rest) = n \<or> is_bool_token col then col # rest else spec_strip n rest)"

definition spec_reconcile :: "nat \<Rightarrow> string list \<Rightarrow> string list" where
  "spec_reconcile n tokens = rev (spec_strip n (rev tokens))"

text \<open>The sum of the numbers in row \<open>i\<close> of some columns.\<close>

definition row_sum :: "cell list list \<Rightarrow> nat \<Rightarrow> real" where
  "row_sum cols i = sum_list (map (\<lambda>c. case c ! i of Num x \<Rightarrow> x | _ \<Rightarrow> 0) cols)"

section \<open>Concrete inputs\<close>

text \<open>Surroundings with no file, and with one mask file holding one row of tokens.\<close>

definition no_files :: env where
  "no_files =
     \<lparr>isfile = (\<lambda>p. False), join_dir = (\<lambda>p. p), csv_rows = (\<lambda>p. Inl OSError),
      read_csv = (\<lambda>p. Inl OSError),
      num_str = (\<lambda>x. if x = 0 then ''0'' else if x = 1 then ''1'' else if x = 10 then ''10''
                      else if x = 100 then ''100'' else ''x''),
      shuffled = (\<lambda>n. rev [0..<n])\<rparr>"

definition mask_file_fs :: "string list \<Rightarrow> env" where
  "mask_file_fs row =
     no_files\<lparr>isfile := (\<lambda>p. p = ''mask.txt''),
              csv_rows := (\<lambda>p. if p = ''mask.txt'' then Inr [row] else Inl OSError)\<rparr>"

definition two_cols :: frame where
  "two_cols = \<lparr>nrows = 1, columns = [(''a'', [Num 1]), (''b'', [Num 2])]\<rparr>"

definition three_cols :: frame where
  "three_cols = \<lparr>nrows = 1, columns = [(''a'', [Num 1]), (''b'', [Num 2]), (''c'', [Num 3])]\<rparr>"

definition abundance :: frame where
  "abundance =
     \<lparr>nrows = 3,
      columns = [(''Protein Abundance'', [Num 1, NaN, Num 3]), (''Mass'', [NaN, NaN, NaN])]\<rparr>"

definition sizes :: frame where
  "sizes =
     \<lparr>nrows = 3,
      columns = [(''Accession Number'', [Str ''P1'', Str ''P2'', Str ''P3'']),
                 (''Particle Size'', [Str ''small'', NaN, Str ''large''])]\<rparr>"



text \<open>
  A raw table of three samples; the second has no \<^verbatim>\<open>Bound Fraction\<close> and no
  \<^verbatim>\<open>Protein Abundance\<close>.
\<close>

definition raw_table :: frame where
  "raw_table =
     \<lparr>nrows = 3,
      columns =
        [(''Accession Number'', [Str ''P1'', Str ''P2'', Str ''P3'']),
         (''Sequence'', [Str ''MKV'', Str ''MAL'', Str ''MSE'']),
         (''Protein Length'', [Num 3, Num 3, Num 3]),
         (''Enzyme Commission Number'', [Num 0, Num 1, Num 0]),
         (''Particle Size'', [Num 10, Num 10, Num 100]),
         (''Particle Charge'', [Num 0, Num 1, Num 1]),
         (''Solvent Cysteine Concentration'', [Num 0, Num 0, Num 0]),
         (''Solvent NaCl Concentration'', [Num 0, Num 1, Num 0]),
         (''Protein Abundance'', [Num 1, NaN, Num 3]),
         (''Mass'', [Num 20, Num 40, Num 60]),
         (''Bound Fraction'', [Num (1 / 4), NaN, Num (3 / 4)])]\<rparr>"

definition with_raw :: data_base where
  "with_raw = init\<lparr>priv_raw_data := PFrame raw_table\<rparr>"

text \<open>What cleaning makes of it: the table before the scaling and the clean feature set.\<close>

definition original_table :: frame where
  "original_table =
     \<lparr>nrows = 3,
      columns =
        [(''Protein Abundance'', [Num 1, Num 2, Num 3]),
         (''Mass'', [Num 20, Num 40, Num 60]),
         (''Enzyme Commission Number_0'', [Num 1, Num 0, Num 1]),
         (''Enzyme Commission Number_1'', [Num 0, Num 1, Num 0]),
         (''Particle Size_10'', [Num 1, Num 1, Num 0]),
         (''Particle Size_100'', [Num 0, Num 0, Num 1]),
         (''Particle Charge_0'', [Num 1, Num 0, Num 0]),
         (''Particle Charge_1'', [Num 0, Num 1, Num 1]),
         (''Solvent Cysteine Concentration_0'', [Num 1, Num 1, Num 1]),
         (''Solvent NaCl Concentration_0'', [Num 1, Num 0, Num 1]),
         (''Solvent NaCl Concentration_1'', [Num 0, Num 1, Num 0])]\<rparr>"

definition cleaned_table :: frame where
  "cleaned_table =
     \<lparr>nrows = 3,
      columns =
        [(''Accession Number'', [Str ''P1'', Str ''P2'', Str ''P3'']),
         (''Protein Abundance'', [Num 0, Num (1 / 2), Num 1]),
         (''Mass'', [Num 0, Num (1 / 2), Num 1]),
         (''Enzyme Commission Number_0'', [Num 1, Num 0, Num 1]),
         (''Enzyme Commission Number_1'', [Num 0, Num 1, Num 0]),
         (''Particle Size_10'', [Num 1, Num 1, Num 0]),
         (''Particle Size_100'', [Num 0, Num 0, Num 1]),
         (''Particle Charge_0'', [Num 1, Num 0, Num 0]),
         (''Particle Charge_1'', [Num 0, Num 1, Num 1]),
         (''Solvent Cysteine Concentration_0'', [Num 0, Num 0, Num 0]),
         (''Solvent NaCl Concentration_0'', [Num 1, Num 0, Num 1]),
         (''Solvent NaCl Concentration_1'', [Num 0, Num 1, Num 0])]\<rparr>"

definition cleaned :: data_base where
  "cleaned =
     with_raw\<lparr>priv_clean_X_data := PFrame cleaned_table,
              priv_target := PArray [Num (1 / 4), NaN, Num (3 / 4)],
              priv_Y_train := PArray [Num (1 / 4), NaN, Num (3 / 4)],
              priv_original := PFrame original_table,
              priv_X_train := PFrame cleaned_table\<rparr>"

text \<open>A clean feature set of five samples with its target, ready to be split.\<close>

definition five_rows :: frame where
  "five_rows =
     \<lparr>nrows = 5,
      columns = [(''Accession Number'', [Str ''P1'', Str ''P2'', Str ''P3'', Str ''P4'', Str ''P5'']),
                 (''Mass'', [Num 0, Num (1 / 4), Num (1 / 2), Num (3 / 4), Num 1])]\<rparr>"

definition ready :: data_base where
  "ready = init\<lparr>priv_clean_X_data := PFrame five_rows,
                priv_target := PArray [Num 1, Num 2, Num 3, Num 4, Num 5]\<rparr>"

definition ready_split :: data_base where
  "ready_split =
     ready\<lparr>priv_X_train :=
             PFrame \<lparr>nrows = 4, columns = [(''Mass'', [Num (1 / 4), Num (1 / 2), Num (3 / 4), Num 1])]\<rparr>,
           priv_X_test := PFrame \<lparr>nrows = 1, columns = [(''Mass'', [Num 0])]\<rparr>,
           priv_Y_train := PArray [Num 2, Num 3, Num 4, Num 5],
           priv_Y_test := PArray [Num 1],
           priv_test_accession_numbers := PSeries ''Accession Number'' [Str ''P1'']\<rparr>"

section \<open>Sequencing\<close>

lemma bind_err_Inr [simp]: "bind_err (Inr x) f = f x"
  by (simp add: bind_err_def)

lemma bind_err_Inl [simp]: "bind_err (Inl e) f = Inl e"
  by (simp add: bind_err_def)

lemma bind_err_eq_Inr: "bind_err m f = Inr y \<longleftrightarrow> (\<exists>x. m = Inr x \<and> f x = Inr y)"
  by (cases m) simp_all

section \<open>Properties of the column mask applier\<close>

lemma remove_extra_entries_eq:
  "remove_extra_entries ys = rev (dropWhile (\<lambda>c. \<not> is_bool_token c) (rev ys))"
  unfolding remove_extra_entries_def
proof (induction ys rule: rev_induct)
  case Nil
  then show ?case by simp
next
  case (snoc y ys)
  have e: "rev (enumerate 0 (ys @ [y])) = (length ys, y) # rev (enumerate 0 ys)"
    by (simp add: enumerate_append_eq)
  show ?case
    using snoc by (simp add: e is_bool_token_def del_at_def)
qed

lemma collect_false_eq:
  "collect_false ps acc = acc @ map fst (filter (\<lambda>p. strip (snd p) = ''False'') ps)"
  by (induction ps arbitrary: acc) auto

lemma collect_false_positions:
  "collect_false (enumerate 0 tokens) acc = acc @ false_positions tokens"
  by (simp add: collect_false_eq false_positions_def)

lemma false_positions_filter:
  "false_positions tokens = filter (\<lambda>i. strip (tokens ! i) = ''False'') [0..<length tokens]"
proof -
  have "enumerate 0 tokens = map (\<lambda>i. (i, tokens ! i)) [0..<length tokens]"
    by (simp add: enumerate_eq_zip zip_eq_conv comp_def map_nth) 
  then show ?thesis
    by (simp add: false_positions_def filter_map comp_def)
qed

lemma false_positions_iff:
  "i \<in> set (false_positions tokens) \<longleftrightarrow> i < length tokens \<and> strip (tokens ! i) = ''False''"
  by (simp add: false_positions_filter)

lemma labels_at_ok:
  "list_all (\<lambda>i. i < length (names df)) idxs \<Longrightarrow> labels_at df idxs = Inr (map (\<lambda>i. names df ! i) idxs)"
  by (simp add: labels_at_def names_def)

lemma labels_at_Inr:
  "labels_at df idxs = Inr ls \<Longrightarrow> ls = map (\<lambda>i. names df ! i) idxs \<and> (\<forall>i\<in>set idxs. i < length (names df))"
  by (auto simp: labels_at_def names_def list_all_iff split: if_splits)

lemma drop_labels_ok:
  "set ls \<subseteq> set (names df) \<Longrightarrow>
   drop_labels df ls = Inr (df\<lparr>columns := filter (\<lambda>c. fst c \<notin> set ls) (columns df)\<rparr>)"
proof -
  assume "set ls \<subseteq> set (names df)"
  then have "filter (\<lambda>l. l \<notin> set (names df)) ls = []"
    by (auto simp: filter_empty_conv)
  then show ?thesis by (simp add: drop_labels_def)
qed

lemma drop_labels_Inr:
  "drop_labels df ls = Inr d \<Longrightarrow> d = df\<lparr>columns := filter (\<lambda>c. fst c \<notin> set ls) (columns df)\<rparr>"
  by (auto simp: drop_labels_def split: list.splits)

lemma apply_loop_step:
  assumes "apply_loop (df # args) m idxs upd = Inr outs"
  shows "\<exists>m' d. apply_loop args m' (idxs @ false_positions m') (upd @ [d]) = Inr outs
           \<and> m' = (if length m \<noteq> length (names df) then remove_extra_entries m else m)
           \<and> length m' = length (names df)
           \<and> (\<forall>i\<in>set (idxs @ false_positions m'). i < length (names df))
           \<and> d = df\<lparr>columns := filter (\<lambda>c. fst c \<notin> set (map (\<lambda>i. names df ! i) (idxs @ false_positions m'))) (columns df)\<rparr>"
proof -
  define m' where "m' = (if length m \<noteq> length (names df) then remove_extra_entries m else m)"
  from assms have len: "length m' = length (names df)"
    by (auto simp: m'_def Let_def split: if_splits)
  from assms len obtain ls d where
    l: "labels_at df (idxs @ false_positions m') = Inr ls" and
    d: "drop_labels df ls = Inr d" and
    r: "apply_loop args m' (idxs @ false_positions m') (upd @ [d]) = Inr outs"
    by (auto simp: m'_def Let_def collect_false_positions split: if_splits sum.splits)
  from labels_at_Inr[OF l] drop_labels_Inr[OF d] r len show ?thesis
    unfolding m'_def by blast
qed

lemma apply_loop_prefix:
  "apply_loop args m idxs upd = Inr outs \<Longrightarrow> \<exists>rest. outs = upd @ rest \<and> length rest = length args"
proof (induction args arbitrary: m idxs upd)
  case Nil
  then show ?case by simp
next
  case (Cons df args)
  from apply_loop_step[OF Cons.prems] obtain m' d where
    "apply_loop args m' (idxs @ false_positions m') (upd @ [d]) = Inr outs" by blast
  from Cons.IH[OF this] obtain rest where "outs = (upd @ [d]) @ rest" "length rest = length args"
    by blast
  then show ?case by simp
qed

lemma apply_loop_drops:
  "apply_loop args m idxs upd = Inr outs \<Longrightarrow> k < length args \<Longrightarrow> i \<in> set idxs \<Longrightarrow>
     names (args ! k) ! i \<notin> set (names (outs ! (length upd + k)))"
proof (induction args arbitrary: m idxs upd k)
  case Nil
  then show ?case by simp
next
  case (Cons df args)
  from apply_loop_step[OF Cons.prems(1)] obtain m' d where
    r: "apply_loop args m' (idxs @ false_positions m') (upd @ [d]) = Inr outs" and
    d: "d = df\<lparr>columns := filter (\<lambda>c. fst c \<notin> set (map (\<lambda>i. names df ! i) (idxs @ false_positions m'))) (columns df)\<rparr>"
    by blast
  show ?case
  proof (cases k)
    case 0
    from apply_loop_prefix[OF r] obtain rest where "outs = (upd @ [d]) @ rest" by blast
    then have "outs ! length upd = d" by (simp add: nth_append)
    moreover have "names df ! i \<notin> set (names d)"
      using Cons.prems(3) by (auto simp: d names_def)
    ultimately show ?thesis using 0 by simp
  next
    case (Suc j)
    with Cons.prems have "j < length args" "i \<in> set (idxs @ false_positions m')" by simp_all
    from Cons.IH[OF r this] show ?thesis using Suc by simp
  qed
qed

lemma length_filter_nth:
  "length (filter P xs) = length (filter (\<lambda>j. P (xs ! j)) [0..<length xs])"
proof -
  have "filter P (map ((!) xs) [0..<length xs]) = map ((!) xs) (filter (\<lambda>j. P (xs ! j)) [0..<length xs])"
    by (simp add: filter_map comp_def)
  then show ?thesis by (metis length_map map_nth)
qed

lemma kept_count:
  assumes "distinct (names df)" "length m = length (names df)"
  shows "length (filter (\<lambda>c. fst c \<notin> set (map (\<lambda>i. names df ! i) (false_positions m))) (columns df))
       = length (filter (\<lambda>c. strip c \<noteq> ''False'') m)"
proof -
  let ?n = "length m"
  have n: "length (columns df) = ?n" using assms(2) by (simp add: names_def)
  have "\<And>j. j < ?n \<Longrightarrow>
      (fst (columns df ! j) \<notin> set (map (\<lambda>i. names df ! i) (false_positions m))) = (strip (m ! j) \<noteq> ''False'')"
  proof -
    fix j assume j: "j < ?n"
    have f: "fst (columns df ! j) = names df ! j" using j n by (simp add: names_def)
    have "(names df ! j \<in> (\<lambda>i. names df ! i) ` set (false_positions m)) = (j \<in> set (false_positions m))"
      using assms j by (auto simp: false_positions_iff nth_eq_iff_index_eq)
    then show "(fst (columns df ! j) \<notin> set (map (\<lambda>i. names df ! i) (false_positions m))) = (strip (m ! j) \<noteq> ''False'')"
      using j by (simp add: f false_positions_iff)
  qed
  then have "filter (\<lambda>j. fst (columns df ! j) \<notin> set (map (\<lambda>i. names df ! i) (false_positions m))) [0..<?n]
           = filter (\<lambda>j. strip (m ! j) \<noteq> ''False'') [0..<?n]"
    by (intro filter_cong) auto
  then show ?thesis
    using length_filter_nth[of "\<lambda>c. fst c \<notin> set (map (\<lambda>i. names df ! i) (false_positions m))" "columns df"]
          length_filter_nth[of "\<lambda>c. strip c \<noteq> ''False''" m] n
    by simp
qed

lemma apply_loop_step_ok:
  assumes "length m' = length (names df)" "\<forall>i\<in>set idxs. i < length (names df)"
    and "m' = (if length m \<noteq> length (names df) then remove_extra_entries m else m)"
  shows "apply_loop (df # args) m idxs upd =
         apply_loop args m' (idxs @ false_positions m')
           (upd @ [df\<lparr>columns := filter (\<lambda>c. fst c \<notin> set (map (\<lambda>i. names df ! i) (idxs @ false_positions m'))) (columns df)\<rparr>])"
proof -
  have a: "list_all (\<lambda>i. i < length (names df)) (idxs @ false_positions m')"
    using assms(1,2) by (auto simp: list_all_iff false_positions_iff)
  have b: "set (map (\<lambda>i. names df ! i) (idxs @ false_positions m')) \<subseteq> set (names df)"
    using a by (auto simp: list_all_iff)
  show ?thesis
    using assms(1,3) labels_at_ok[OF a] drop_labels_ok[OF b]
    by (simp add: Let_def collect_false_positions)
qed

lemma count_bool:
  "list_all is_bool_token tokens \<Longrightarrow> count_not_false tokens = count_true tokens"
  unfolding count_not_false_def count_true_def
  by (induction tokens) (auto simp: is_bool_token_def)

lemma dropWhile_blank:
  assumes "list_all is_bool_token pre" "strip b1 = []" "strip b2 = []"
  shows "remove_extra_entries (pre @ [b1, b2]) = pre"
proof -
  have nb: "\<not> is_bool_token b1" "\<not> is_bool_token b2"
    using assms by (simp_all add: is_bool_token_def)
  have "dropWhile (\<lambda>c. \<not> is_bool_token c) (rev pre) = rev pre"
    using assms(1) by (cases "rev pre") (auto simp: list_all_iff)
  then show ?thesis using nb by (simp add: remove_extra_entries_eq)
qed

text \<open>
  Claim C3, as the code has it. \<^verbatim>\<open>remove_extra_entries\<close> takes no length: it removes
  every token after the last boolean one (the whole mask when none is boolean), also past
  the point where the lengths would have matched. It runs only when the token count differs
  from the column count; if the counts still differ afterwards, the call fails with the
  error that carries both lengths. A mask made of as many boolean tokens as there are
  columns, followed by two blank tokens, is trimmed to the boolean tokens and applied.
\<close>

theorem mask_reconciliation:
  "remove_extra_entries tokens = rev (dropWhile (\<lambda>c. \<not> is_bool_token c) (rev tokens))
   \<and> (length column_mask \<noteq> length (names df)
        \<and> length (remove_extra_entries column_mask) \<noteq> length (names df) \<longrightarrow>
      apply_loop (df # args) column_mask column_indexes updated_args =
        Inl (MaskLengthError (length (remove_extra_entries column_mask)) (length (names df))))
   \<and> (isfile ev mask_path \<and> csv_rows ev (join_dir ev mask_path) = Inr ((pre @ [b1, b2]) # other_rows)
        \<and> list_all is_bool_token pre \<and> length pre = length (names df)
        \<and> strip b1 = [] \<and> strip b2 = [] \<longrightarrow>
      apply_RFECV_mask ev mask_path [df] =
        Inr [df\<lparr>columns := filter (\<lambda>c. fst c \<notin> set (map (\<lambda>i. names df ! i) (false_positions pre)))
                              (columns df)\<rparr>])"
proof (intro conjI impI)
  show "remove_extra_entries tokens = rev (dropWhile (\<lambda>c. \<not> is_bool_token c) (rev tokens))"
    by (rule remove_extra_entries_eq)
next
  assume "length column_mask \<noteq> length (names df)
        \<and> length (remove_extra_entries column_mask) \<noteq> length (names df)"
  then show "apply_loop (df # args) column_mask column_indexes updated_args =
        Inl (MaskLengthError (length (remove_extra_entries column_mask)) (length (names df)))"
    by (simp add: Let_def)
next
  assume a: "isfile ev mask_path \<and> csv_rows ev (join_dir ev mask_path) = Inr ((pre @ [b1, b2]) # other_rows)
        \<and> list_all is_bool_token pre \<and> length pre = length (names df)
        \<and> strip b1 = [] \<and> strip b2 = []"
  then have r: "remove_extra_entries (pre @ [b1, b2]) = pre"
    by (simp add: dropWhile_blank)
  have "apply_loop [df] (pre @ [b1, b2]) [] [] =
     apply_loop [] pre ([] @ false_positions pre)
       ([] @ [df\<lparr>columns := filter (\<lambda>c. fst c \<notin> set (map (\<lambda>i. names df ! i) ([] @ false_positions pre))) (columns df)\<rparr>])"
    using a r by (intro apply_loop_step_ok) auto
  then show "apply_RFECV_mask ev mask_path [df] =
        Inr [df\<lparr>columns := filter (\<lambda>c. fst c \<notin> set (map (\<lambda>i. names df ! i) (false_positions pre)))
                              (columns df)\<rparr>]"
    using a by (simp add: apply_RFECV_mask_def)
qed

lemma strip_simps:
  "strip ''True'' = ''True''" "strip ''False'' = ''False''" "strip '' False'' = ''False''"
  "strip '''' = ''''" "strip '' '' = ''''"
  by (simp_all add: strip_def is_space_def)

text \<open>Claim C3 at a mask with two trailing blank tokens, on three and on two columns.\<close>

theorem mask_reconciliation_witness:
  "remove_extra_entries [''True'', '' False'', '''', '' ''] = [''True'', '' False'']
   \<and> apply_loop [three_cols] [''True'', '' False'', '''', '' ''] [] [] = Inl (MaskLengthError 2 3)
   \<and> apply_RFECV_mask (mask_file_fs [''True'', '' False'', '''', '' '']) ''mask.txt'' [two_cols] =
       Inr [\<lparr>nrows = 1, columns = [(''a'', [Num 1])]\<rparr>]"
  using mask_reconciliation [where tokens = "[''True'', '' False'', '''', '' '']"
      and column_mask = "[''True'', '' False'', '''', '' '']" and df = three_cols and args = "[]"
      and column_indexes = "[]" and updated_args = "[]"]
    mask_reconciliation [where ev = "mask_file_fs [''True'', '' False'', '''', '' '']"
      and mask_path = "''mask.txt''" and pre = "[''True'', '' False'']" and ?b1.0 = "''''"
      and ?b2.0 = "'' ''" and other_rows = "[]" and df = two_cols]
  by (simp add: strip_simps is_bool_token_def names_def two_cols_def three_cols_def mask_file_fs_def no_files_def
      false_positions_def)

text \<open>
  Claim C3 as stated fails: on two columns and the mask \<^verbatim>\<open>True,,\<close> the stripping
  goes past the length two, where the specification's wording stops, and the call fails.
\<close>

theorem mask_reconciliation_counterexample:
  "spec_reconcile 2 [''True'', '''', ''''] = [''True'', '''']
   \<and> remove_extra_entries [''True'', '''', ''''] = [''True'']
   \<and> apply_RFECV_mask (mask_file_fs [''True'', '''', '''']) ''mask.txt'' [two_cols] =
       Inl (MaskLengthError 1 2)"
  by (simp add: spec_reconcile_def remove_extra_entries_def del_at_def strip_simps is_bool_token_def
      apply_RFECV_mask_def mask_file_fs_def no_files_def two_cols_def names_def)

text \<open>
  Claim C4, as the code has it. The index list is carried from one input to the next:
  after an input it is the list carried in followed by the \<^verbatim>\<open>False\<close> positions of the
  mask, and the column at every position in it is absent from the output of every later
  input. For a single input whose labels are distinct and whose column count is the
  token count, the output has as many columns as the mask has tokens other than
  \<^verbatim>\<open>False\<close>; that is the number of \<^verbatim>\<open>True\<close> tokens when every token is boolean.
\<close>

theorem mask_index_accumulation:
  "(apply_loop (df # args) column_mask column_indexes updated_args = Inr outs \<longrightarrow>
      (\<exists>mask'. apply_loop args mask' (column_indexes @ false_positions mask')
                  (updated_args @ [outs ! length updated_args]) = Inr outs
         \<and> (\<forall>k<length args. \<forall>i\<in>set (column_indexes @ false_positions mask').
               names (args ! k) ! i \<notin> set (names (outs ! (Suc (length updated_args) + k))))))
   \<and> (distinct (names df) \<and> length column_mask = length (names df) \<longrightarrow>
      (\<exists>d. apply_loop [df] column_mask [] [] = Inr [d]
         \<and> length (names d) = count_not_false column_mask
         \<and> (list_all is_bool_token column_mask \<longrightarrow> length (names d) = count_true column_mask)))"
proof (intro conjI impI)
  assume a: "apply_loop (df # args) column_mask column_indexes updated_args = Inr outs"
  from apply_loop_step[OF a] obtain m' d where
    r: "apply_loop args m' (column_indexes @ false_positions m') (updated_args @ [d]) = Inr outs"
    by blast
  from apply_loop_prefix[OF r] obtain rest where "outs = (updated_args @ [d]) @ rest" by blast
  then have d: "outs ! length updated_args = d" by (simp add: nth_append)
  have "\<forall>k<length args. \<forall>i\<in>set (column_indexes @ false_positions m').
               names (args ! k) ! i \<notin> set (names (outs ! (Suc (length updated_args) + k)))"
    using apply_loop_drops[OF r] by simp
  with r d show "\<exists>mask'. apply_loop args mask' (column_indexes @ false_positions mask')
                  (updated_args @ [outs ! length updated_args]) = Inr outs
         \<and> (\<forall>k<length args. \<forall>i\<in>set (column_indexes @ false_positions mask').
               names (args ! k) ! i \<notin> set (names (outs ! (Suc (length updated_args) + k))))"
    by blast
next
  assume a: "distinct (names df) \<and> length column_mask = length (names df)"
  let ?d = "df\<lparr>columns := filter (\<lambda>c. fst c \<notin> set (map (\<lambda>i. names df ! i) ([] @ false_positions column_mask))) (columns df)\<rparr>"
  have "apply_loop [df] column_mask [] [] = apply_loop [] column_mask ([] @ false_positions column_mask) ([] @ [?d])"
    using a by (intro apply_loop_step_ok) auto
  then have 1: "apply_loop [df] column_mask [] [] = Inr [?d]" by simp
  have 2: "length (names ?d) = count_not_false column_mask"
    using kept_count[of df column_mask] a by (simp add: names_def count_not_false_def)
  from 1 2 count_bool[of column_mask]
  show "\<exists>d. apply_loop [df] column_mask [] [] = Inr [d]
         \<and> length (names d) = count_not_false column_mask
         \<and> (list_all is_bool_token column_mask \<longrightarrow> length (names d) = count_true column_mask)"
    by auto
qed

text \<open>Claim C4 on a three-column and a two-column table under one mask.\<close>

theorem mask_index_accumulation_witness:
  "apply_loop [three_cols, two_cols] [''True'', '' False'', '' ''] [] [] =
     Inr [\<lparr>nrows = 1, columns = [(''a'', [Num 1]), (''c'', [Num 3])]\<rparr>,
          \<lparr>nrows = 1, columns = [(''a'', [Num 1])]\<rparr>]
   \<and> names two_cols ! 1 \<notin> set (names \<lparr>nrows = 1, columns = [(''a'', [Num 1])]\<rparr>)
   \<and> (\<exists>d. apply_loop [two_cols] [''True'', '' False''] [] [] = Inr [d]
         \<and> length (names d) = count_true [''True'', '' False''])"
proof -
  have e: "apply_loop [three_cols, two_cols] [''True'', '' False'', '' ''] [] [] =
     Inr [\<lparr>nrows = 1, columns = [(''a'', [Num 1]), (''c'', [Num 3])]\<rparr>,
          \<lparr>nrows = 1, columns = [(''a'', [Num 1])]\<rparr>]"
    by (simp add: two_cols_def three_cols_def names_def remove_extra_entries_def del_at_def
        strip_simps labels_at_def drop_labels_def)
  have f: "1 \<in> set ([] @ false_positions [''True'', '' False'', '' ''])"
    by (simp add: false_positions_def strip_simps)
  have h: "distinct (names two_cols) \<and> length [''True'', '' False''] = length (names two_cols)"
    by (simp add: two_cols_def names_def)
  have b: "list_all is_bool_token [''True'', '' False'']"
    by (simp add: is_bool_token_def strip_simps)
  from mask_index_accumulation [where df = three_cols and args = "[two_cols]"
      and column_mask = "[''True'', '' False'', '' '']" and column_indexes = "[]"
      and updated_args = "[]"
      and outs = "[\<lparr>nrows = 1, columns = [(''a'', [Num 1]), (''c'', [Num 3])]\<rparr>,
          \<lparr>nrows = 1, columns = [(''a'', [Num 1])]\<rparr>]"] e
  have "names two_cols ! 1 \<notin> set (names \<lparr>nrows = 1, columns = [(''a'', [Num 1])]\<rparr>)"
    by (simp add: two_cols_def names_def)
  moreover from mask_index_accumulation [where df = two_cols and column_mask = "[''True'', '' False'']"] h b
  have "\<exists>d. apply_loop [two_cols] [''True'', '' False''] [] [] = Inr [d]
         \<and> length (names d) = count_true [''True'', '' False'']"
    by blast
  ultimately show ?thesis using e by blast
qed

text \<open>
  Claim C4 as stated fails: the mask \<^verbatim>\<open>True,\<close> matches two columns and keeps both,
  with one \<^verbatim>\<open>True\<close> token.
\<close>

theorem mask_true_count_counterexample:
  "apply_RFECV_mask (mask_file_fs [''True'', '''']) ''mask.txt'' [two_cols] = Inr [two_cols]
   \<and> length (names two_cols) = 2 \<and> count_true [''True'', ''''] = 1"
  by (simp add: apply_RFECV_mask_def mask_file_fs_def no_files_def two_cols_def names_def strip_simps
      labels_at_def drop_labels_def count_true_def)

section \<open>Mean imputation\<close>

lemma fill_nan_loop_eq:
  "fill_nan_loop vals count tot =
     (if has_text vals then Inl TypeError
      else Inr (count + length (nums vals), tot + sum_list (nums vals)))"
  by (induction vals count tot rule: fill_nan_loop.induct) (simp_all add: has_text_def nums_def)

lemma all_missing_nums: "list_all (\<lambda>c. c = NaN) vals \<Longrightarrow> nums vals = [] \<and> \<not> has_text vals"
  by (induction vals) (auto simp: nums_def has_text_def)

text \<open>
  Claim C10. On a column whose every entry is missing, \<^verbatim>\<open>fill_nan\<close> divides zero by the
  count zero and fails with ZeroDivisionError. On a numeric column with a value present it
  returns the table with that column's missing entries replaced by the sum of the present
  values over their number. It returns a table only if a value is present.
\<close>

theorem fill_nan_total_iff_value_present:
  "get_col data column = Inr vals \<longrightarrow>
     (list_all (\<lambda>c. c = NaN) vals \<longrightarrow> fill_nan data column = Inl ZeroDivisionError)
   \<and> (\<not> has_text vals \<and> nums vals \<noteq> [] \<longrightarrow>
        fill_nan data column =
          Inr (set_col data column
                 (fillna vals (Num (sum_list (nums vals) / real (length (nums vals)))))))
   \<and> ((\<exists>d. fill_nan data column = Inr d) \<longrightarrow> nums vals \<noteq> [])"
  by (auto simp: fill_nan_def fill_nan_loop_eq dest: all_missing_nums split: if_splits)

text \<open>Claim C10 on a column with one missing entry and on a column with none present.\<close>

theorem fill_nan_total_iff_value_present_witness:
  "fill_nan abundance ''Mass'' = Inl ZeroDivisionError
   \<and> fill_nan abundance ''Protein Abundance'' =
       Inr \<lparr>nrows = 3,
            columns = [(''Protein Abundance'', [Num 1, Num 2, Num 3]), (''Mass'', [NaN, NaN, NaN])]\<rparr>"
  using fill_nan_total_iff_value_present [of abundance "''Mass''" "[NaN, NaN, NaN]"]
    fill_nan_total_iff_value_present [of abundance "''Protein Abundance''" "[Num 1, NaN, Num 3]"]
  by (simp add: abundance_def get_col_def set_col_def fillna_def nums_def has_text_def)

section \<open>One-hot encoding\<close>

lemma set_insort_cell: "set (insort_cell c ds) = insert c (set ds)"
  by (induction ds) auto

lemma distinct_insort_cell: "distinct (insort_cell c ds) = (c \<notin> set ds \<and> distinct ds)"
  by (induction ds) (auto simp: set_insort_cell)

lemma length_insort_cell: "length (insort_cell c ds) = Suc (length ds)"
  by (induction ds) auto

lemma sort_cells_props:
  "set (sort_cells cs) = set cs \<and> length (sort_cells cs) = length cs
   \<and> distinct (sort_cells cs) = distinct cs"
  unfolding sort_cells_def
  by (induction cs) (auto simp: set_insort_cell distinct_insort_cell length_insort_cell)

lemma categories_props:
  "set (categories vals) = set vals - {NaN} \<and> distinct (categories vals)
   \<and> length (categories vals) = card (set vals - {NaN})"
proof -
  have s: "set (remdups (filter (\<lambda>c. c \<noteq> NaN) vals)) = set vals - {NaN}" by auto
  have "length (remdups (filter (\<lambda>c. c \<noteq> NaN) vals)) = card (set vals - {NaN})"
    using s by (metis length_remdups_card_conv set_remdups)
  then show ?thesis
    using s by (simp add: categories_def sort_cells_props)
qed

lemma row_sum_indicator:
  assumes "i < length vals"
  shows "row_sum (map (\<lambda>cat. indicator cat vals) (categories vals)) i
       = (if vals ! i = NaN then 0 else 1)"
proof -
  have "row_sum (map (\<lambda>cat. indicator cat vals) (categories vals)) i
      = sum_list (map (\<lambda>cat. if vals ! i = cat then 1 else 0) (categories vals))"
    using assms by (simp add: row_sum_def indicator_def comp_def)
  also have "\<dots> = sum (\<lambda>cat. if vals ! i = cat then 1 else 0) (set vals - {NaN})"
    using categories_props[of vals] by (simp add: sum_list_distinct_conv_sum_set)
  also have "\<dots> = (if vals ! i = NaN then 0 else 1)"
    using assms by (simp add: sum.delta)
  finally show ?thesis .
qed


lemma get_col_in: "get_col df name = Inr vals \<Longrightarrow> (name, vals) \<in> set (columns df)"
  by (auto simp: get_col_def split: option.splits dest: map_of_SomeD)

lemma get_col_length: "get_col df name = Inr vals \<Longrightarrow> rect df \<Longrightarrow> length vals = nrows df"
  by (drule get_col_in) (auto simp: rect_def list_all_iff)

lemma pad_id: "length (snd c) = n \<Longrightarrow> pad n c = c"
  by (simp add: pad_def)

lemma concat_cols_rect:
  assumes "rect a" "rect b" "nrows b = nrows a"
  shows "concat_cols a b = \<lparr>nrows = nrows a, columns = columns a @ columns b\<rparr>"
proof -
  have "map (pad (nrows a)) (columns a @ columns b) = columns a @ columns b"
    using assms by (intro map_idI) (auto simp: rect_def list_all_iff intro!: pad_id)
  then show ?thesis using assms by (simp add: concat_cols_def)
qed

lemma rect_get_dummies: "rect (get_dummies ev vals prefix)"
  by (simp add: rect_def get_dummies_def list_all_iff indicator_def)

lemma drop_label_ok:
  "l \<in> set (names df) \<Longrightarrow>
   drop_label df l = Inr (df\<lparr>columns := filter (\<lambda>c. fst c \<noteq> l) (columns df)\<rparr>)"
  by (simp add: drop_label_def drop_labels_def)

lemma drop_label_Inr:
  "drop_label df l = Inr d \<Longrightarrow> d = df\<lparr>columns := filter (\<lambda>c. fst c \<noteq> l) (columns df)\<rparr>"
  by (auto simp: drop_label_def drop_labels_def split: list.splits if_splits)

lemma one_hot_encode_eq:
  assumes "get_col df category = Inr vals" "rect df"
  shows "one_hot_encode ev (PFrame df) category =
     Inr \<lparr>nrows = nrows df,
          columns = filter (\<lambda>c. fst c \<noteq> category) (columns df)
                    @ map (\<lambda>cat. (category @ ''_'' @ cell_str ev cat, indicator cat vals))
                        (categories vals)\<rparr>"
proof -
  let ?dummy = "get_dummies ev vals category"
  have n: "nrows ?dummy = nrows df"
    using get_col_length[OF assms] by (simp add: get_dummies_def)
  have c: "concat_cols df ?dummy = \<lparr>nrows = nrows df, columns = columns df @ columns ?dummy\<rparr>"
    using concat_cols_rect[OF assms(2) rect_get_dummies n] .
  have m: "category \<in> set (names \<lparr>nrows = nrows df, columns = columns df @ columns ?dummy\<rparr>)"
    using get_col_in[OF assms(1)] by (force simp: names_def)
  have f: "filter (\<lambda>c. fst c \<noteq> category) (columns ?dummy) = columns ?dummy"
    by (simp add: get_dummies_def filter_map comp_def)
  show ?thesis
    using assms(1) c drop_label_ok[OF m] f
    by (simp add: one_hot_encode_def Let_def get_dummies_def)
qed

text \<open>
  Claim C8, as the code has it. On a table with the column \<open>category\<close>, the encoder
  returns the table without that column, followed by one indicator column per distinct
  category present in it, each labelled with the column's name, an underscore and the
  category; the row count is unchanged. In a row whose category is present the indicators
  sum to 1; in a row whose category is missing every indicator is 0.
\<close>

theorem one_hot_encode_indicators:
  "get_col df category = Inr vals \<and> rect df \<longrightarrow>
     one_hot_encode ev (PFrame df) category =
       Inr \<lparr>nrows = nrows df,
            columns = filter (\<lambda>c. fst c \<noteq> category) (columns df)
                      @ map (\<lambda>cat. (category @ ''_'' @ cell_str ev cat, indicator cat vals))
                          (categories vals)\<rparr>
     \<and> length (categories vals) = card (set vals - {NaN})
     \<and> (\<forall>i<nrows df. row_sum (map (\<lambda>cat. indicator cat vals) (categories vals)) i
                        = (if vals ! i = NaN then 0 else 1))"
  using one_hot_encode_eq[of df category vals ev] categories_props[of vals]
    row_sum_indicator[of _ vals] get_col_length[of df category vals]
  by auto

text \<open>Claim C8 on a column with two categories and one missing entry.\<close>

theorem one_hot_encode_indicators_witness:
  "one_hot_encode no_files (PFrame sizes) ''Particle Size'' =
     Inr \<lparr>nrows = 3,
          columns = [(''Accession Number'', [Str ''P1'', Str ''P2'', Str ''P3'']),
                     (''Particle Size_large'', [Num 0, Num 0, Num 1]),
                     (''Particle Size_small'', [Num 1, Num 0, Num 0])]\<rparr>
   \<and> row_sum [[Num 0, Num 0, Num 1], [Num 1, Num 0, Num 0]] 0 = 1
   \<and> row_sum [[Num 0, Num 0, Num 1], [Num 1, Num 0, Num 0]] 1 = 0"
proof -
  have g: "get_col sizes ''Particle Size'' = Inr [Str ''small'', NaN, Str ''large''] \<and> rect sizes"
    by (simp add: get_col_def sizes_def rect_def)
  have c: "categories [Str ''small'', NaN, Str ''large''] = [Str ''large'', Str ''small'']"
    by (simp add: categories_def sort_cells_def)
  from one_hot_encode_indicators [of sizes "''Particle Size''" "[Str ''small'', NaN, Str ''large'']" no_files] g
  show ?thesis
    by (simp add: c sizes_def cell_str_def indicator_def)
qed

text \<open>
  Claim C8 as stated fails: the second row of the table has no category, and its
  indicators sum to 0.
\<close>

theorem one_hot_row_sum_counterexample:
  "one_hot_encode no_files (PFrame sizes) ''Particle Size'' =
     Inr \<lparr>nrows = 3,
          columns = [(''Accession Number'', [Str ''P1'', Str ''P2'', Str ''P3'']),
                     (''Particle Size_large'', [Num 0, Num 0, Num 1]),
                     (''Particle Size_small'', [Num 1, Num 0, Num 0])]\<rparr>
   \<and> row_sum [[Num 0, Num 0, Num 1], [Num 1, Num 0, Num 0]] 1 \<noteq> 1"
  by (simp add: one_hot_encode_def get_col_def sizes_def get_dummies_def categories_def
      sort_cells_def concat_cols_def pad_def drop_label_def drop_labels_def names_def
      cell_str_def indicator_def row_sum_def)

section \<open>Normalisation\<close>



lemma length_minmax_column: "length (minmax_column vals) = length vals"
  by (cases "nums vals") (simp_all add: minmax_column_def Let_def)



lemma fit_transform_ok:
  assumes "\<not> list_ex (\<lambda>c. has_text (snd c)) (columns data)" "0 < nrows data" "columns data \<noteq> []"
  shows "fit_transform data = Inr (map (\<lambda>c. minmax_column (snd c)) (columns data))"
  using assms by (simp add: fit_transform_def)

lemma zip_names_map: "zip (map fst cs) (map (\<lambda>c. f (snd c)) cs) = map (\<lambda>c. (fst c, f (snd c))) cs"
  by (induction cs) auto


lemma normalize_and_reshape_eq:
  assumes "rect data" "length (snd labels) = nrows data" "0 < nrows data" "columns data \<noteq> []"
    "\<not> list_ex (\<lambda>c. has_text (snd c)) (columns data)"
  shows "normalize_and_reshape data labels =
     Inr \<lparr>nrows = nrows data,
          columns = labels # map (\<lambda>c. (fst c, minmax_column (snd c))) (columns data)\<rparr>"
proof -
  let ?scaled = "\<lparr>nrows = nrows data, columns = map (\<lambda>c. (fst c, minmax_column (snd c))) (columns data)\<rparr>"
  let ?lab = "\<lparr>nrows = length (snd labels), columns = [labels]\<rparr>"
  have r1: "rect ?lab" by (simp add: rect_def)
  have r2: "rect ?scaled"
    using assms(1) by (auto simp: rect_def list_all_iff length_minmax_column)
  have "concat_cols ?lab ?scaled = \<lparr>nrows = nrows ?lab, columns = columns ?lab @ columns ?scaled\<rparr>"
    using assms(2) by (intro concat_cols_rect[OF r1 r2]) simp
  then show ?thesis
    using fit_transform_ok[OF assms(5,3,4)] assms(2)
    by (simp add: normalize_and_reshape_def names_def zip_names_map)
qed



section \<open>The cleaning pipeline\<close>

lemma as_frame_eq_Inr [simp]: "as_frame v = Inr df \<longleftrightarrow> v = PFrame df"
  by (cases v) (simp_all add: as_frame_def)

lemma set_clean_X_data_frame [simp]:
  "set_clean_X_data ev s (PFrame df) = Inr (s\<lparr>priv_clean_X_data := PFrame df\<rparr>)"
  by (simp add: set_clean_X_data_def is_file_path_def)

lemma set_X_train_frame [simp]:
  "set_X_train ev s (PFrame df) = Inr (s\<lparr>priv_X_train := PFrame df\<rparr>)"
  by (simp add: set_X_train_def is_file_path_def)

lemma set_X_test_frame [simp]:
  "set_X_test ev s (PFrame df) = Inr (s\<lparr>priv_X_test := PFrame df\<rparr>)"
  by (simp add: set_X_test_def is_file_path_def)

lemma set_Y_train_array [simp]:
  "set_Y_train ev s (PArray a) = Inr (s\<lparr>priv_Y_train := PArray a\<rparr>)"
  by (simp add: set_Y_train_def is_file_path_def)

lemma set_Y_test_array [simp]:
  "set_Y_test ev s (PArray a) = Inr (s\<lparr>priv_Y_test := PArray a\<rparr>)"
  by (simp add: set_Y_test_def is_file_path_def)

lemma set_test_accession_numbers_series [simp]:
  "set_test_accession_numbers ev s (PSeries l a) = Inr (s\<lparr>priv_test_accession_numbers := PSeries l a\<rparr>)"
  by (simp add: set_test_accession_numbers_def is_file_path_def)

lemma clean_X_data_frame:
  "priv_clean_X_data s = PFrame df \<Longrightarrow> clean_X_data s = Inr (PFrame df)"
  by (simp add: clean_X_data_def)

lemma for_each_invariant:
  assumes "for_each body s xs = Inr s'" "P s"
    and "\<And>s x s'. x \<in> set xs \<Longrightarrow> P s \<Longrightarrow> body s x = Inr s' \<Longrightarrow> P s'"
  shows "P s'"
  using assms
proof (induction xs arbitrary: s)
  case Nil
  then show ?case by simp
next
  case (Cons x xs)
  from Cons.prems(1) obtain s1 where b: "body s x = Inr s1" and r: "for_each body s1 xs = Inr s'"
    by (auto split: sum.splits)
  have p1: "P s1" using Cons.prems(3)[of x s s1] Cons.prems(2) b by simp
  show ?case
  proof (rule Cons.IH[OF r p1])
    fix s x' s' assume "x' \<in> set xs" "P s" "body s x' = Inr s'"
    then show "P s'" using Cons.prems(3)[of x' s s'] by simp
  qed
qed

lemma map_of_filter_other:
  "name \<noteq> k \<Longrightarrow> map_of (filter (\<lambda>c. fst c \<noteq> k) xs) name = map_of xs name"
  by (induction xs) auto

lemma get_col_after_encode:
  assumes "get_col df name = Inr vals" "name \<noteq> category"
  shows "get_col \<lparr>nrows = n, columns = filter (\<lambda>c. fst c \<noteq> category) (columns df) @ extra\<rparr> name = Inr vals"
  using assms
  by (auto simp: get_col_def map_of_filter_other map_add_def split: option.splits)

lemma rect_filter: "rect df \<Longrightarrow> rect (df\<lparr>columns := filter P (columns df)\<rparr>)"
  by (simp add: rect_def list_all_iff)

lemma encode_step_Inr:
  assumes "priv_clean_X_data s = PFrame df" "rect df" "encode_step ev s category = Inr s'"
  shows "\<exists>df'. s' = s\<lparr>priv_clean_X_data := PFrame df'\<rparr> \<and> rect df' \<and> nrows df' = nrows df
           \<and> (\<forall>name vals. name \<noteq> category \<longrightarrow> get_col df name = Inr vals \<longrightarrow> get_col df' name = Inr vals)"
proof -
  from assms(1,3) obtain df' where o: "one_hot_encode ev (PFrame df) category = Inr df'"
    and s': "s' = s\<lparr>priv_clean_X_data := PFrame df'\<rparr>"
    by (auto simp: encode_step_def clean_X_data_frame bind_err_eq_Inr)
  from o obtain vals where g: "get_col df category = Inr vals"
    by (auto simp: one_hot_encode_def bind_err_eq_Inr)
  from one_hot_encode_eq[OF g assms(2), of ev] o
  have d: "df' = \<lparr>nrows = nrows df,
          columns = filter (\<lambda>c. fst c \<noteq> category) (columns df)
                    @ map (\<lambda>cat. (category @ ''_'' @ cell_str ev cat, indicator cat vals))
                        (categories vals)\<rparr>" by simp
  have "rect df'"
    using assms(2) get_col_length[OF g assms(2)]
    by (auto simp: d rect_def list_all_iff indicator_def)
  moreover have "nrows df' = nrows df" by (simp add: d)
  moreover have "\<forall>name vals. name \<noteq> category \<longrightarrow> get_col df name = Inr vals \<longrightarrow> get_col df' name = Inr vals"
    unfolding d using get_col_after_encode by blast
  ultimately show ?thesis using s' by blast
qed

lemma encode_categoricals_Inr:
  assumes "priv_raw_data self = PFrame raw" "rect raw" "encode_categoricals ev self = Inr s1"
  shows "\<exists>df1. s1 = self\<lparr>priv_clean_X_data := PFrame df1\<rparr> \<and> rect df1 \<and> nrows df1 = nrows raw
           \<and> (\<forall>name vals. name \<notin> set categorical_data \<longrightarrow> get_col raw name = Inr vals \<longrightarrow> get_col df1 name = Inr vals)"
proof -
  let ?P = "\<lambda>s. \<exists>df1. s = self\<lparr>priv_clean_X_data := PFrame df1\<rparr> \<and> rect df1 \<and> nrows df1 = nrows raw
           \<and> (\<forall>name vals. name \<notin> set categorical_data \<longrightarrow> get_col raw name = Inr vals \<longrightarrow> get_col df1 name = Inr vals)"
  from assms(1,3) have l: "for_each (encode_step ev) (self\<lparr>priv_clean_X_data := PFrame raw\<rparr>) categorical_data = Inr s1"
    by (simp add: encode_categoricals_def raw_data_def)
  have p0: "?P (self\<lparr>priv_clean_X_data := PFrame raw\<rparr>)" using assms(2) by blast
  show ?thesis
  proof (rule for_each_invariant[OF l, where P = ?P, OF p0])
    fix s x s'
    assume x: "x \<in> set categorical_data" and p: "?P s" and b: "encode_step ev s x = Inr s'"
    from p obtain df1 where s: "s = self\<lparr>priv_clean_X_data := PFrame df1\<rparr>" and r: "rect df1"
      and n: "nrows df1 = nrows raw"
      and k: "\<forall>name vals. name \<notin> set categorical_data \<longrightarrow> get_col raw name = Inr vals \<longrightarrow> get_col df1 name = Inr vals"
      by blast
    have c: "priv_clean_X_data s = PFrame df1" by (simp add: s)
    from encode_step_Inr[OF c r b] obtain df' where
      "s' = s\<lparr>priv_clean_X_data := PFrame df'\<rparr>" "rect df'" "nrows df' = nrows df1"
      "\<forall>name vals. name \<noteq> x \<longrightarrow> get_col df1 name = Inr vals \<longrightarrow> get_col df' name = Inr vals"
      by blast
    then show "?P s'" using s n k x by (intro exI[of _ df']) auto
  qed
qed


lemma capture_target_Inr:
  assumes "priv_clean_X_data s = PFrame df" "capture_target ev s = Inr cap"
  shows "\<exists>bound a. get_col df ''Bound Fraction'' = Inr bound
           \<and> get_col df ''Accession Number'' = Inr a
           \<and> cap = (s\<lparr>priv_target := PArray bound, priv_Y_train := PArray bound\<rparr>,
                    (''Accession Number'', a))"
  using assms
  by (auto simp: capture_target_def clean_X_data_frame bind_err_eq_Inr Let_def target_def
      get_series_def)

lemma drop_step_Inr:
  assumes "priv_clean_X_data s = PFrame df" "rect df" "drop_step ev s column = Inr s'"
  shows "\<exists>df'. s' = s\<lparr>priv_clean_X_data := PFrame df'\<rparr> \<and> rect df' \<and> nrows df' = nrows df"
proof -
  from assms(1,3) obtain df' where d: "drop_label df column = Inr df'"
    and s': "s' = s\<lparr>priv_clean_X_data := PFrame df'\<rparr>"
    by (auto simp: drop_step_def clean_X_data_frame bind_err_eq_Inr)
  from drop_label_Inr[OF d] rect_filter[OF assms(2)] s' show ?thesis by auto
qed

lemma fill_nan_Inr:
  assumes "fill_nan df column = Inr df'" "rect df"
  shows "rect df' \<and> nrows df' = nrows df"
proof -
  from assms(1) obtain vals v where g: "get_col df column = Inr vals"
    and d: "df' = set_col df column (fillna vals v)"
    by (auto simp: fill_nan_def bind_err_eq_Inr split: if_splits)
  have "length (fillna vals v) = nrows df"
    using get_col_length[OF g assms(2)] by (simp add: fillna_def)
  then show ?thesis
    using assms(2) by (auto simp: d set_col_def rect_def list_all_iff)
qed

lemma drop_and_impute_Inr:
  assumes "priv_clean_X_data s = PFrame df" "rect df" "drop_and_impute ev s = Inr s'"
  shows "\<exists>df'. s' = s\<lparr>priv_clean_X_data := PFrame df'\<rparr> \<and> rect df' \<and> nrows df' = nrows df"
proof -
  let ?P = "\<lambda>t. \<exists>d. t = s\<lparr>priv_clean_X_data := PFrame d\<rparr> \<and> rect d \<and> nrows d = nrows df"
  from assms(3) obtain s1 where l: "for_each (drop_step ev) s columns_to_drop = Inr s1"
    and r: "bind_err (clean_X_data s1) (\<lambda>c. bind_err (as_frame c) (\<lambda>df.
              bind_err (fill_nan df ''Protein Abundance'') (\<lambda>df.
                set_clean_X_data ev s1 (PFrame df)))) = Inr s'"
    by (auto simp: drop_and_impute_def bind_err_eq_Inr)
  have p0: "?P s" using assms(1,2) by (intro exI[of _ df]) simp
  have "?P s1"
  proof (rule for_each_invariant[OF l, where P = ?P, OF p0])
    fix t x t'
    assume p: "?P t" and b: "drop_step ev t x = Inr t'"
    from p obtain d where t: "t = s\<lparr>priv_clean_X_data := PFrame d\<rparr>" and rd: "rect d"
      and n: "nrows d = nrows df" by blast
    have c: "priv_clean_X_data t = PFrame d" by (simp add: t)
    from drop_step_Inr[OF c rd b] obtain d' where
      "t' = t\<lparr>priv_clean_X_data := PFrame d'\<rparr>" "rect d'" "nrows d' = nrows d" by blast
    then show "?P t'" using t n by (intro exI[of _ d']) simp
  qed
  then obtain d1 where s1: "s1 = s\<lparr>priv_clean_X_data := PFrame d1\<rparr>" and r1: "rect d1"
    and n1: "nrows d1 = nrows df" by blast
  have c1: "priv_clean_X_data s1 = PFrame d1" by (simp add: s1)
  from r obtain d2 where f: "fill_nan d1 ''Protein Abundance'' = Inr d2"
    and s': "s' = s1\<lparr>priv_clean_X_data := PFrame d2\<rparr>"
    by (auto simp: clean_X_data_frame[OF c1] bind_err_eq_Inr)
  from fill_nan_Inr[OF f r1] s' s1 n1 show ?thesis by (intro exI[of _ d2]) simp
qed

lemma fit_transform_Inr:
  "fit_transform data = Inr m \<Longrightarrow>
     \<not> list_ex (\<lambda>c. has_text (snd c)) (columns data) \<and> 0 < nrows data \<and> columns data \<noteq> []"
  by (auto simp: fit_transform_def split: if_splits)

lemma normalize_and_reshape_Inr:
  assumes "normalize_and_reshape data labels = Inr out" "rect data" "length (snd labels) = nrows data"
  shows "out = \<lparr>nrows = nrows data,
               columns = labels # map (\<lambda>c. (fst c, minmax_column (snd c))) (columns data)\<rparr>"
proof -
  from assms(1) obtain m where "fit_transform data = Inr m"
    by (auto simp: normalize_and_reshape_def bind_err_eq_Inr)
  from fit_transform_Inr[OF this] normalize_and_reshape_eq[OF assms(2,3), of ] assms(1)
  show ?thesis by simp
qed

lemma snapshot_and_normalize_Inr:
  assumes "priv_clean_X_data s = PFrame df" "rect df" "length (snd acc) = nrows df"
    "snapshot_and_normalize ev s acc = Inr s'"
  shows "\<exists>out. s' = s\<lparr>priv_original := PFrame df, priv_clean_X_data := PFrame out,
                       priv_X_train := PFrame out\<rparr>
           \<and> out = \<lparr>nrows = nrows df,
                     columns = acc # map (\<lambda>c. (fst c, minmax_column (snd c))) (columns df)\<rparr>"
proof -
  from assms(1,4) obtain out where n: "normalize_and_reshape df acc = Inr out"
    and s': "s' = s\<lparr>priv_original := PFrame df, priv_clean_X_data := PFrame out,
                       priv_X_train := PFrame out\<rparr>"
    by (auto simp: snapshot_and_normalize_def clean_X_data_def bind_err_eq_Inr Let_def)
  from normalize_and_reshape_Inr[OF n assms(2,3)] s' show ?thesis by blast
qed

lemma clean_raw_data_Inr:
  assumes "priv_raw_data self = PFrame raw" "rect raw" "clean_raw_data ev self = Inr self'"
  shows "\<exists>df1 bound a df2 out.
           get_col df1 ''Bound Fraction'' = Inr bound \<and> get_col df1 ''Accession Number'' = Inr a
           \<and> rect df1 \<and> nrows df1 = nrows raw
           \<and> (\<forall>name vals. name \<notin> set categorical_data \<longrightarrow> get_col raw name = Inr vals
                  \<longrightarrow> get_col df1 name = Inr vals)
           \<and> rect df2 \<and> nrows df2 = nrows raw
           \<and> out = \<lparr>nrows = nrows raw,
                     columns = (''Accession Number'', a)
                               # map (\<lambda>c. (fst c, minmax_column (snd c))) (columns df2)\<rparr>
           \<and> self' = self\<lparr>priv_clean_X_data := PFrame out, priv_target := PArray bound,
                          priv_Y_train := PArray bound, priv_original := PFrame df2,
                          priv_X_train := PFrame out\<rparr>"
proof -
  from assms(3) obtain s1 cap s3 where e: "encode_categoricals ev self = Inr s1"
    and c: "capture_target ev s1 = Inr cap"
    and d: "drop_and_impute ev (fst cap) = Inr s3"
    and n: "snapshot_and_normalize ev s3 (snd cap) = Inr self'"
    by (auto simp: clean_raw_data_def bind_err_eq_Inr)
  from encode_categoricals_Inr[OF assms(1,2) e] obtain df1 where
    s1: "s1 = self\<lparr>priv_clean_X_data := PFrame df1\<rparr>" and r1: "rect df1"
    and n1: "nrows df1 = nrows raw"
    and k1: "\<forall>name vals. name \<notin> set categorical_data \<longrightarrow> get_col raw name = Inr vals
                  \<longrightarrow> get_col df1 name = Inr vals" by blast
  have c1: "priv_clean_X_data s1 = PFrame df1" by (simp add: s1)
  from capture_target_Inr[OF c1 c] obtain bound a where
    gb: "get_col df1 ''Bound Fraction'' = Inr bound"
    and ga: "get_col df1 ''Accession Number'' = Inr a"
    and cap: "cap = (s1\<lparr>priv_target := PArray bound, priv_Y_train := PArray bound\<rparr>,
                    (''Accession Number'', a))" by blast
  have c2: "priv_clean_X_data (fst cap) = PFrame df1" by (simp add: cap s1)
  from drop_and_impute_Inr[OF c2 r1 d] obtain df2 where
    s3: "s3 = (fst cap)\<lparr>priv_clean_X_data := PFrame df2\<rparr>" and r2: "rect df2"
    and n2: "nrows df2 = nrows df1" by blast
  have c3: "priv_clean_X_data s3 = PFrame df2" by (simp add: s3)
  have la: "length (snd (snd cap)) = nrows df2"
    using get_col_length[OF ga r1] n2 by (simp add: cap)
  from snapshot_and_normalize_Inr[OF c3 r2 la n] obtain out where
    s': "self' = s3\<lparr>priv_original := PFrame df2, priv_clean_X_data := PFrame out,
                       priv_X_train := PFrame out\<rparr>"
    and out: "out = \<lparr>nrows = nrows df2,
                     columns = snd cap # map (\<lambda>c. (fst c, minmax_column (snd c))) (columns df2)\<rparr>"
    by blast
  have "self' = self\<lparr>priv_clean_X_data := PFrame out, priv_target := PArray bound,
                          priv_Y_train := PArray bound, priv_original := PFrame df2,
                          priv_X_train := PFrame out\<rparr>"
    by (simp add: s' s3 cap s1)
  then show ?thesis
    using gb ga r1 n1 k1 r2 n2 out cap by (intro exI[of _ df1] exI[of _ bound] exI[of _ a] exI[of _ df2] exI[of _ out]) simp
qed

section \<open>Cleaning a raw table\<close>

lemma categorical_simps:
  "categories [Num 0, Num 1, Num 0] = [Num 0, Num 1]"
  "categories [Num 10, Num 10, Num 100] = [Num 10, Num 100]"
  "categories [Num 0, Num 1, Num 1] = [Num 0, Num 1]"
  "categories [Num 0, Num 0, Num 0] = [Num 0]"
  by (simp_all add: categories_def sort_cells_def)

lemma clean_raw_table: "clean_raw_data no_files with_raw = Inr cleaned"
  by (simp add: clean_raw_data_def encode_categoricals_def capture_target_def drop_and_impute_def
      snapshot_and_normalize_def raw_data_def clean_X_data_def target_def with_raw_def init_def
      raw_table_def categorical_data_def columns_to_drop_def encode_step_def drop_step_def
      one_hot_encode_def get_col_def get_dummies_def categorical_simps concat_cols_def pad_def
      drop_label_def drop_labels_def names_def cell_str_def indicator_def no_files_def
      series_mean_def has_text_def nums_def fillna_def get_series_def Let_def
      fill_nan_def set_col_def normalize_and_reshape_def fit_transform_def minmax_column_def
      scale_cell_def handle_zeros_in_scale_def cleaned_def cleaned_table_def original_table_def
      as_frame_def)




text \<open>
  Claim C1 does not hold of the code. \<^verbatim>\<open>clean_raw_data\<close> computes the filled series
  and drops it, so whenever it returns, the target vector (and the train target set from
  it) is the raw \<^verbatim>\<open>Bound Fraction\<close> column cell for cell, its missing entries still
  missing.
\<close>

theorem clean_keeps_missing_target:
  "priv_raw_data self = PFrame raw \<and> rect raw \<and> get_col raw ''Bound Fraction'' = Inr bound
     \<and> clean_raw_data ev self = Inr self' \<longrightarrow>
   priv_target self' = PArray bound \<and> priv_Y_train self' = PArray bound"
proof
  assume a: "priv_raw_data self = PFrame raw \<and> rect raw \<and> get_col raw ''Bound Fraction'' = Inr bound
     \<and> clean_raw_data ev self = Inr self'"
  then have 1: "priv_raw_data self = PFrame raw" and 2: "rect raw"
    and 3: "clean_raw_data ev self = Inr self'" and g: "get_col raw ''Bound Fraction'' = Inr bound"
    by simp_all
  from clean_raw_data_Inr[OF 1 2 3] obtain df1 b where
    gb: "get_col df1 ''Bound Fraction'' = Inr b"
    and k: "\<forall>name vals. name \<notin> set categorical_data \<longrightarrow> get_col raw name = Inr vals
                  \<longrightarrow> get_col df1 name = Inr vals"
    and t: "priv_target self' = PArray b" "priv_Y_train self' = PArray b"
    by auto
  have "''Bound Fraction'' \<notin> set categorical_data" by (simp add: categorical_data_def)
  with k g have "get_col df1 ''Bound Fraction'' = Inr bound" by blast
  with gb have "b = bound" by simp
  with t show "priv_target self' = PArray bound \<and> priv_Y_train self' = PArray bound" by simp
qed

text \<open>
  Claim C1 on the raw table of three samples: the second target stays missing, where
  the claim puts the mean 1/2 of the other two.
\<close>

theorem clean_keeps_missing_target_witness:
  "clean_raw_data no_files with_raw = Inr cleaned
   \<and> get_col raw_table ''Bound Fraction'' = Inr [Num (1 / 4), NaN, Num (3 / 4)]
   \<and> priv_target cleaned = PArray [Num (1 / 4), NaN, Num (3 / 4)]"
proof -
  have h: "priv_raw_data with_raw = PFrame raw_table \<and> rect raw_table
     \<and> get_col raw_table ''Bound Fraction'' = Inr [Num (1 / 4), NaN, Num (3 / 4)]"
    by (simp add: with_raw_def raw_table_def rect_def get_col_def)
  from clean_keeps_missing_target [where self = with_raw and raw = raw_table and ev = no_files
      and self' = cleaned and bound = "[Num (1 / 4), NaN, Num (3 / 4)]"] h clean_raw_table
  show ?thesis by simp
qed

section \<open>Getters and setters\<close>

text \<open>
  Claim C2 does not hold of the code. On a fresh instance the getter of the test
  target returns None; the getters of the raw data, the clean features, the snapshot, the
  target, the train and test features, the train target and the test identifiers raise
  their initialisation error.
\<close>

theorem getters_on_unset_fields:
  "Y_test init = Inr PNone
   \<and> raw_data init = Inl (ValueError ''Initialize raw data by setting raw_data=<path.csv>'')
   \<and> clean_X_data init = Inl (ValueError ''Initialize clean_X_data by calling clean_data()'')
   \<and> original init = Inl (ValueError ''Initialize original by calling clean_data()'')
   \<and> target init = Inl (ValueError ''Initialize target by calling clean_data()'')
   \<and> X_train init = Inl (ValueError ''Initialize X_train by calling stratified_data_split()'')
   \<and> X_test init = Inl (ValueError ''Initialize X_test by calling stratified_data_split()'')
   \<and> Y_train init = Inl (ValueError ''Initialize Y_train by calling stratified_data_split()'')
   \<and> test_accession_numbers init =
        Inl (ValueError ''Initialize test_accession_numbers by calling stratified_data_split()'')"
  by (simp add: init_def Y_test_def raw_data_def clean_X_data_def original_def target_def
      X_train_def X_test_def Y_train_def test_accession_numbers_def)

text \<open>
  Claim C6 does not hold of the code. The setter of \<^verbatim>\<open>predict\<close> raises TypeError on
  a table already in memory, where the setters of the raw data, the clean features and the
  four partitions store it.
\<close>

theorem set_predict_rejects_table:
  "set_predict ev self (PFrame df) = Inl TypeError
   \<and> set_raw_data ev self (PFrame df) = Inr (self\<lparr>priv_raw_data := PFrame df\<rparr>)
   \<and> set_clean_X_data ev self (PFrame df) = Inr (self\<lparr>priv_clean_X_data := PFrame df\<rparr>)
   \<and> set_X_train ev self (PFrame df) = Inr (self\<lparr>priv_X_train := PFrame df\<rparr>)
   \<and> set_X_test ev self (PFrame df) = Inr (self\<lparr>priv_X_test := PFrame df\<rparr>)
   \<and> set_Y_train ev self (PFrame df) = Inr (self\<lparr>priv_Y_train := PFrame df\<rparr>)
   \<and> set_Y_test ev self (PFrame df) = Inr (self\<lparr>priv_Y_test := PFrame df\<rparr>)"
  by (simp add: set_predict_def set_raw_data_def set_clean_X_data_def set_X_train_def
      set_X_test_def set_Y_train_def set_Y_test_def is_file_path_def)

section \<open>Splitting\<close>

lemma iloc_ok: "\<forall>i\<in>set idxs. i < nrows df \<Longrightarrow> iloc df idxs = Inr (take_rows df idxs)"
  by (simp add: iloc_def list_all_iff)

lemma array_take_ok:
  "\<forall>i\<in>set idxs. i < length a \<Longrightarrow> array_take (PArray a) idxs = Inr (PArray (map (\<lambda>i. a ! i) idxs))"
  by (simp add: array_take_def list_all_iff)

lemma split_step_ok:
  assumes "priv_clean_X_data s = PFrame c" "priv_target s = PArray t" "length t = nrows c"
    "\<forall>i\<in>set (fst f). i < nrows c" "\<forall>i\<in>set (snd f). i < nrows c"
  shows "split_step ev s f =
     Inr (s\<lparr>priv_X_train := PFrame (take_rows c (fst f)), priv_X_test := PFrame (take_rows c (snd f)),
            priv_Y_train := PArray (map (\<lambda>i. t ! i) (fst f)),
            priv_Y_test := PArray (map (\<lambda>i. t ! i) (snd f))\<rparr>)"
  using assms
  by (simp add: split_step_def Let_def clean_X_data_def as_frame_def iloc_ok array_take_ok target_def)

lemma split_loop_ok:
  assumes "priv_clean_X_data s = PFrame c" "priv_target s = PArray t" "length t = nrows c"
    "fs \<noteq> []" "\<forall>f\<in>set fs. (\<forall>i\<in>set (fst f). i < nrows c) \<and> (\<forall>i\<in>set (snd f). i < nrows c)"
  shows "for_each (split_step ev) s fs =
     Inr (s\<lparr>priv_X_train := PFrame (take_rows c (fst (last fs))),
            priv_X_test := PFrame (take_rows c (snd (last fs))),
            priv_Y_train := PArray (map (\<lambda>i. t ! i) (fst (last fs))),
            priv_Y_test := PArray (map (\<lambda>i. t ! i) (snd (last fs)))\<rparr>)"
  using assms
proof (induction fs arbitrary: s)
  case Nil
  then show ?case by simp
next
  case (Cons f fs)
  let ?s1 = "s\<lparr>priv_X_train := PFrame (take_rows c (fst f)), priv_X_test := PFrame (take_rows c (snd f)),
            priv_Y_train := PArray (map (\<lambda>i. t ! i) (fst f)),
            priv_Y_test := PArray (map (\<lambda>i. t ! i) (snd f))\<rparr>"
  have st: "split_step ev s f = Inr ?s1"
    using Cons.prems by (intro split_step_ok) auto
  show ?case
  proof (cases "fs = []")
    case True
    then show ?thesis using st by simp
  next
    case False
    have "for_each (split_step ev) ?s1 fs =
      Inr (?s1\<lparr>priv_X_train := PFrame (take_rows c (fst (last fs))),
            priv_X_test := PFrame (take_rows c (snd (last fs))),
            priv_Y_train := PArray (map (\<lambda>i. t ! i) (fst (last fs))),
            priv_Y_test := PArray (map (\<lambda>i. t ! i) (snd (last fs)))\<rparr>)"
      using Cons.prems False by (intro Cons.IH) auto
    then show ?thesis using st False by simp
  qed
qed

lemma fold_of_props:
  assumes "fold_of n test = (tr, te)"
  shows "set tr \<inter> set te = {} \<and> set tr \<union> set te = {..<n} \<and> distinct tr \<and> distinct te
     \<and> length tr + length te = n \<and> (\<forall>i\<in>set tr. i < n) \<and> (\<forall>i\<in>set te. i < n)"
proof -
  have tr: "tr = filter (\<lambda>i. i \<notin> set test) [0..<n]" and te: "te = filter (\<lambda>i. i \<in> set test) [0..<n]"
    using assms by (simp_all add: fold_of_def)
  have "length te + length tr = n"
    unfolding tr te using sum_length_filter_compl[of "\<lambda>i. i \<in> set test" "[0..<n]"] by simp
  moreover have "set tr \<inter> set te = {}" "set tr \<union> set te = {..<n}" "distinct tr" "distinct te"
    "\<forall>i\<in>set tr. i < n" "\<forall>i\<in>set te. i < n"
    unfolding tr te by auto
  ultimately show ?thesis by simp
qed

lemma length_iter_test_indices: "length (iter_test_indices indices current szs) = length szs"
  by (induction szs arbitrary: current) auto

lemma kfold_split_ok:
  assumes "5 \<le> n"
  shows "\<exists>folds. kfold_split ev n = Inr folds \<and> length folds = 5
           \<and> (\<forall>f\<in>set folds. \<exists>test. f = fold_of n test)"
  using assms by (auto simp: kfold_split_def length_iter_test_indices fold_sizes_def)

lemma map_of_map_snd:
  "map_of (map (\<lambda>c. (fst c, f (snd c))) cols) k = map_option f (map_of cols k)"
  by (induction cols) auto

lemma get_col_take_rows:
  "get_col c name = Inr vals \<Longrightarrow> get_col (take_rows c idxs) name = Inr (map (\<lambda>i. vals ! i) idxs)"
proof -
  assume "get_col c name = Inr vals"
  then have m: "map_of (columns c) name = Some vals"
    by (auto simp: get_col_def split: option.splits)
  have "map_of (map (\<lambda>c. (fst c, (\<lambda>col. map (\<lambda>i. col ! i) idxs) (snd c))) (columns c)) name
      = map_option (\<lambda>col. map (\<lambda>i. col ! i) idxs) (map_of (columns c) name)"
    by (rule map_of_map_snd)
  then show ?thesis by (simp add: get_col_def take_rows_def m)
qed

lemma names_take_rows: "names (take_rows c idxs) = names c"
  by (simp add: names_def take_rows_def comp_def)


lemma get_col_names: "get_col df name = Inr vals \<Longrightarrow> name \<in> set (names df)"
  by (drule get_col_in) (force simp: names_def)

lemma split_tail_ok:
  assumes "priv_X_train s = PFrame xa" "priv_X_test s = PFrame xb"
    "get_col xb ''Accession Number'' = Inr ids" "''Accession Number'' \<in> set (names xa)"
  shows "bind_err (keep_test_accession ev s) (strip_accession ev) =
     Inr (s\<lparr>priv_test_accession_numbers := PSeries ''Accession Number'' ids,
            priv_X_train := PFrame (xa\<lparr>columns := filter (\<lambda>c. fst c \<noteq> ''Accession Number'') (columns xa)\<rparr>),
            priv_X_test := PFrame (xb\<lparr>columns := filter (\<lambda>c. fst c \<noteq> ''Accession Number'') (columns xb)\<rparr>)\<rparr>)"
proof -
  have k: "keep_test_accession ev s =
      Inr (s\<lparr>priv_test_accession_numbers := PSeries ''Accession Number'' ids\<rparr>)"
    using assms(2,3) by (simp add: keep_test_accession_def X_test_def as_frame_def get_series_def)
  have b: "''Accession Number'' \<in> set (names xb)" using get_col_names[OF assms(3)] .
  show ?thesis
    using assms(1,2) drop_label_ok[OF assms(4)] drop_label_ok[OF b]
    by (simp add: k strip_accession_def X_train_def X_test_def as_frame_def)
qed

lemma length_filter_mem:
  assumes "distinct xs" "set xs \<subseteq> {..<n}"
  shows "length (filter (\<lambda>i. i \<in> set xs) [0..<n]) = length xs"
proof -
  have "set (filter (\<lambda>i. i \<in> set xs) [0..<n]) = set xs" using assms(2) by auto
  moreover have "distinct (filter (\<lambda>i. i \<in> set xs) [0..<n])" by simp
  ultimately show ?thesis using assms(1) by (metis distinct_card)
qed

lemma fold_sizes_unfold:
  "fold_sizes n =
     [n div 5 + (if 0 < n mod 5 then 1 else 0), n div 5 + (if 1 < n mod 5 then 1 else 0),
      n div 5 + (if 2 < n mod 5 then 1 else 0), n div 5 + (if 3 < n mod 5 then 1 else 0),
      n div 5]"
proof -
  have "[0..<5] = [0, 1, 2, 3, 4::nat]" by (simp add: upt_rec)
  then show ?thesis by (simp add: fold_sizes_def)
qed

lemma arith5: "(n div 5 + (if 0 < n mod 5 then 1 else 0)) + (n div 5 + (if 1 < n mod 5 then 1 else 0))
      + (n div 5 + (if 2 < n mod 5 then 1 else 0)) + (n div 5 + (if 3 < n mod 5 then 1 else 0)) + n div 5 \<le> (n::nat)"
  by presburger

lemma last_iter: "last (map (fold_of n) (iter_test_indices perm 0 [a, b, c, d, e])) = fold_of n (take e (drop (a + b + c + d) perm))"
  by (simp add: add.assoc)


lemma last_fold_size:
  assumes "5 \<le> n" "distinct (shuffled ev n)" "set (shuffled ev n) = {..<n}"
    "kfold_split ev n = Inr folds" "last folds = (tr, te)"
  shows "length te = n div 5"
proof -
  define perm where "perm = shuffled ev n"
  define k where "k = (n div 5 + (if 0 < n mod 5 then 1 else 0)) + (n div 5 + (if 1 < n mod 5 then 1 else 0))
      + (n div 5 + (if 2 < n mod 5 then 1 else 0)) + (n div 5 + (if 3 < n mod 5 then 1 else 0))"
  define chunk where "chunk = take (n div 5) (drop k perm)"
  have len: "length perm = n" using assms(2,3) distinct_card[of perm] by (simp add: perm_def)
  have "folds = map (fold_of n) (iter_test_indices perm 0 (fold_sizes n))"
    using assms(1,4) by (simp add: kfold_split_def perm_def)
  then have "last folds = fold_of n chunk"
    unfolding fold_sizes_unfold chunk_def k_def by (simp only: last_iter)
  with assms(5) have te: "te = filter (\<lambda>i. i \<in> set chunk) [0..<n]"
    by (simp add: fold_of_def)
  have k: "k + n div 5 \<le> n" unfolding k_def by (rule arith5)
  have d: "distinct chunk" using assms(2) by (simp add: chunk_def perm_def)
  have "set chunk \<subseteq> set perm"
    unfolding chunk_def using set_take_subset set_drop_subset by (rule subset_trans)
  then have s: "set chunk \<subseteq> {..<n}" using assms(3) by (simp add: perm_def)
  have "length chunk = n div 5" using len k by (simp add: chunk_def)
  with length_filter_mem[OF d s] te show ?thesis by simp
qed

lemma data_split_ok:
  assumes p: "priv_predict self = PNone" and c: "priv_clean_X_data self = PFrame c"
    and t: "priv_target self = PArray t" and lt: "length t = nrows c" and n5: "5 \<le> nrows c"
    and acc: "get_col c ''Accession Number'' = Inr acc"
    and folds: "kfold_split ev (nrows c) = Inr folds" and lf: "last folds = (train, test)"
  shows "data_split ev self =
     Inr (self\<lparr>priv_X_train := PFrame ((take_rows c train)\<lparr>columns :=
                    filter (\<lambda>c. fst c \<noteq> ''Accession Number'') (columns (take_rows c train))\<rparr>),
               priv_X_test := PFrame ((take_rows c test)\<lparr>columns :=
                    filter (\<lambda>c. fst c \<noteq> ''Accession Number'') (columns (take_rows c test))\<rparr>),
               priv_Y_train := PArray (map (\<lambda>i. t ! i) train),
               priv_Y_test := PArray (map (\<lambda>i. t ! i) test),
               priv_test_accession_numbers :=
                 PSeries ''Accession Number'' (map (\<lambda>i. acc ! i) test)\<rparr>)"
proof -
  from kfold_split_ok[OF n5, of ev] folds have l5: "length folds = 5"
    and ff: "\<forall>f\<in>set folds. \<exists>test. f = fold_of (nrows c) test" by auto
  have ne: "folds \<noteq> []" using l5 by auto
  have v: "\<forall>f\<in>set folds. (\<forall>i\<in>set (fst f). i < nrows c) \<and> (\<forall>i\<in>set (snd f). i < nrows c)"
  proof
    fix f assume "f \<in> set folds"
    with ff obtain te where "fold_of (nrows c) te = (fst f, snd f)" by force
    from fold_of_props[OF this]
    show "(\<forall>i\<in>set (fst f). i < nrows c) \<and> (\<forall>i\<in>set (snd f). i < nrows c)" by simp
  qed
  let ?s1 = "self\<lparr>priv_X_train := PFrame (take_rows c train),
            priv_X_test := PFrame (take_rows c test),
            priv_Y_train := PArray (map (\<lambda>i. t ! i) train),
            priv_Y_test := PArray (map (\<lambda>i. t ! i) test)\<rparr>"
  have loop: "for_each (split_step ev) self folds = Inr ?s1"
    using split_loop_ok[OF c t lt ne v, of ev] lf by simp
  have g: "get_col (take_rows c test) ''Accession Number'' = Inr (map (\<lambda>i. acc ! i) test)"
    using get_col_take_rows[OF acc] .
  have m: "''Accession Number'' \<in> set (names (take_rows c train))"
    using get_col_names[OF acc] by (simp add: names_take_rows)
  have tail: "bind_err (keep_test_accession ev ?s1) (strip_accession ev) =
     Inr (?s1\<lparr>priv_test_accession_numbers := PSeries ''Accession Number'' (map (\<lambda>i. acc ! i) test),
            priv_X_train := PFrame ((take_rows c train)\<lparr>columns :=
                    filter (\<lambda>c. fst c \<noteq> ''Accession Number'') (columns (take_rows c train))\<rparr>),
            priv_X_test := PFrame ((take_rows c test)\<lparr>columns :=
                    filter (\<lambda>c. fst c \<noteq> ''Accession Number'') (columns (take_rows c test))\<rparr>)\<rparr>)"
    by (rule split_tail_ok[OF _ _ g m]) simp_all
  show ?thesis
    using p c folds loop tail
    by (simp add: data_split_def predict_def clean_X_data_def as_frame_def)
qed

text \<open>
  Claim C5, as the code has it. With the predict override unset, a clean feature set of
  at least five rows that has the identifier column, and a target with one entry per
  row, \<^verbatim>\<open>data_split\<close> returns. The generator yields five folds and the partitions are
  those of the last one: its train and test positions are disjoint, together they are all
  rows, and their counts add up to the row count; the test positions are a fifth of the
  rows, rounded down, when the shuffle is a permutation. The train and test features are
  the rows at these positions without the identifier column, the targets are the target
  entries at these positions, and the identifiers of the test rows are kept. With the
  predict override set the call fails with the assertion of \<^verbatim>\<open>data_split\<close>.
\<close>

theorem data_split_partition:
  "(priv_predict self = PNone \<and> priv_clean_X_data self = PFrame c \<and> priv_target self = PArray t
      \<and> length t = nrows c \<and> 5 \<le> nrows c \<and> get_col c ''Accession Number'' = Inr acc \<longrightarrow>
     (\<exists>folds train test x_train x_test.
        kfold_split ev (nrows c) = Inr folds \<and> length folds = 5 \<and> last folds = (train, test)
      \<and> set train \<inter> set test = {} \<and> set train \<union> set test = {..<nrows c}
      \<and> distinct train \<and> distinct test \<and> length train + length test = nrows c
      \<and> drop_label (take_rows c train) ''Accession Number'' = Inr x_train
      \<and> drop_label (take_rows c test) ''Accession Number'' = Inr x_test
      \<and> ''Accession Number'' \<notin> set (names x_train) \<and> ''Accession Number'' \<notin> set (names x_test)
      \<and> nrows x_train + nrows x_test = nrows c
      \<and> data_split ev self =
          Inr (self\<lparr>priv_X_train := PFrame x_train, priv_X_test := PFrame x_test,
                    priv_Y_train := PArray (map (\<lambda>i. t ! i) train),
                    priv_Y_test := PArray (map (\<lambda>i. t ! i) test),
                    priv_test_accession_numbers :=
                      PSeries ''Accession Number'' (map (\<lambda>i. acc ! i) test)\<rparr>)
      \<and> (distinct (shuffled ev (nrows c)) \<and> set (shuffled ev (nrows c)) = {..<nrows c} \<longrightarrow>
           length test = nrows c div 5)))
   \<and> (priv_predict self \<noteq> PNone \<longrightarrow>
        data_split ev self = Inl (AssertionError ''Remove data_split() if using your own data''))"
proof (intro conjI impI)
  assume a: "priv_predict self = PNone \<and> priv_clean_X_data self = PFrame c \<and> priv_target self = PArray t
      \<and> length t = nrows c \<and> 5 \<le> nrows c \<and> get_col c ''Accession Number'' = Inr acc"
  then have p: "priv_predict self = PNone" and c: "priv_clean_X_data self = PFrame c"
    and t: "priv_target self = PArray t" and lt: "length t = nrows c" and n5: "5 \<le> nrows c"
    and acc: "get_col c ''Accession Number'' = Inr acc" by simp_all
  from kfold_split_ok[OF n5, of ev] obtain folds where
    folds: "kfold_split ev (nrows c) = Inr folds" and l5: "length folds = 5"
    and ff: "\<forall>f\<in>set folds. \<exists>test. f = fold_of (nrows c) test" by blast
  have ne: "folds \<noteq> []" using l5 by auto
  obtain train test where lf: "last folds = (train, test)" by (cases "last folds") auto
  from ff ne lf obtain te where "fold_of (nrows c) te = (train, test)"
    by (metis last_in_set)
  from fold_of_props[OF this] have part:
    "set train \<inter> set test = {}" "set train \<union> set test = {..<nrows c}" "distinct train"
    "distinct test" "length train + length test = nrows c" by simp_all
  let ?xa = "(take_rows c train)\<lparr>columns :=
                    filter (\<lambda>c. fst c \<noteq> ''Accession Number'') (columns (take_rows c train))\<rparr>"
  let ?xb = "(take_rows c test)\<lparr>columns :=
                    filter (\<lambda>c. fst c \<noteq> ''Accession Number'') (columns (take_rows c test))\<rparr>"
  have m: "''Accession Number'' \<in> set (names (take_rows c train))"
    "''Accession Number'' \<in> set (names (take_rows c test))"
    using get_col_names[OF acc] by (simp_all add: names_take_rows)
  have da: "drop_label (take_rows c train) ''Accession Number'' = Inr ?xa"
    and db: "drop_label (take_rows c test) ''Accession Number'' = Inr ?xb"
    using drop_label_ok[OF m(1)] drop_label_ok[OF m(2)] by simp_all
  have na: "''Accession Number'' \<notin> set (names ?xa)" "''Accession Number'' \<notin> set (names ?xb)"
    by (auto simp: names_def)
  have nr: "nrows ?xa + nrows ?xb = nrows c"
    using part(5) by (simp add: take_rows_def)
  have sz: "distinct (shuffled ev (nrows c)) \<and> set (shuffled ev (nrows c)) = {..<nrows c} \<longrightarrow>
           length test = nrows c div 5"
    using last_fold_size[OF n5 _ _ folds lf] by blast
  from data_split_ok[OF p c t lt n5 acc folds lf] folds l5 lf part da db na nr sz
  show "\<exists>folds train test x_train x_test.
        kfold_split ev (nrows c) = Inr folds \<and> length folds = 5 \<and> last folds = (train, test)
      \<and> set train \<inter> set test = {} \<and> set train \<union> set test = {..<nrows c}
      \<and> distinct train \<and> distinct test \<and> length train + length test = nrows c
      \<and> drop_label (take_rows c train) ''Accession Number'' = Inr x_train
      \<and> drop_label (take_rows c test) ''Accession Number'' = Inr x_test
      \<and> ''Accession Number'' \<notin> set (names x_train) \<and> ''Accession Number'' \<notin> set (names x_test)
      \<and> nrows x_train + nrows x_test = nrows c
      \<and> data_split ev self =
          Inr (self\<lparr>priv_X_train := PFrame x_train, priv_X_test := PFrame x_test,
                    priv_Y_train := PArray (map (\<lambda>i. t ! i) train),
                    priv_Y_test := PArray (map (\<lambda>i. t ! i) test),
                    priv_test_accession_numbers :=
                      PSeries ''Accession Number'' (map (\<lambda>i. acc ! i) test)\<rparr>)
      \<and> (distinct (shuffled ev (nrows c)) \<and> set (shuffled ev (nrows c)) = {..<nrows c} \<longrightarrow>
           length test = nrows c div 5)"
    by (intro exI[of _ folds] exI[of _ train] exI[of _ test] exI[of _ ?xa] exI[of _ ?xb]) simp
next
  assume "priv_predict self \<noteq> PNone"
  then show "data_split ev self = Inl (AssertionError ''Remove data_split() if using your own data'')"
    by (simp add: data_split_def predict_def)
qed

lemma split_ready: "data_split no_files ready = Inr ready_split"
  by (simp add: data_split_def predict_def clean_X_data_def as_frame_def kfold_split_def
      fold_sizes_unfold fold_of_def no_files_def ready_def init_def five_rows_def
      split_step_def Let_def iloc_def take_rows_def target_def array_take_def
      keep_test_accession_def strip_accession_def X_train_def X_test_def get_series_def
      get_col_def drop_label_def drop_labels_def names_def ready_split_def upt_rec)

text \<open>Claim C5 on a clean feature set of five samples, and with the override set.\<close>

theorem data_split_partition_witness:
  "data_split no_files ready = Inr ready_split
   \<and> (\<exists>folds train test. kfold_split no_files 5 = Inr folds \<and> last folds = (train, test)
         \<and> set train \<inter> set test = {} \<and> length train + length test = 5 \<and> length test = 1)
   \<and> data_split no_files (ready\<lparr>priv_predict := PStr ''user.csv''\<rparr>) =
        Inl (AssertionError ''Remove data_split() if using your own data'')"
proof -
  have h: "priv_predict ready = PNone \<and> priv_clean_X_data ready = PFrame five_rows
      \<and> priv_target ready = PArray [Num 1, Num 2, Num 3, Num 4, Num 5]
      \<and> length [Num 1, Num 2, Num 3, Num 4, Num 5] = nrows five_rows \<and> 5 \<le> nrows five_rows
      \<and> get_col five_rows ''Accession Number''
          = Inr [Str ''P1'', Str ''P2'', Str ''P3'', Str ''P4'', Str ''P5'']"
    by (simp add: ready_def init_def five_rows_def get_col_def)
  have n: "nrows five_rows = 5" by (simp add: five_rows_def)
  have perm: "distinct (shuffled no_files 5) \<and> set (shuffled no_files 5) = {..<5}"
    by (auto simp: no_files_def)
  from data_split_partition [where self = ready and c = five_rows and ev = no_files
      and t = "[Num 1, Num 2, Num 3, Num 4, Num 5]"
      and acc = "[Str ''P1'', Str ''P2'', Str ''P3'', Str ''P4'', Str ''P5'']", THEN conjunct1] h
  have "\<exists>folds train test. kfold_split no_files 5 = Inr folds \<and> last folds = (train, test)
         \<and> set train \<inter> set test = {} \<and> length train + length test = 5 \<and> length test = 1"
    using perm unfolding n by fastforce
  moreover
  from data_split_partition [where self = "ready\<lparr>priv_predict := PStr ''user.csv''\<rparr>"
      and ev = no_files, THEN conjunct2]
  have "data_split no_files (ready\<lparr>priv_predict := PStr ''user.csv''\<rparr>) =
        Inl (AssertionError ''Remove data_split() if using your own data'')"
    by simp
  ultimately show ?thesis using split_ready by blast
qed

text \<open>
  Claim C5 as stated fails: the cleaned table of three samples has the override unset,
  clean data and a target, and the five-fold generator refuses it.
\<close>

theorem data_split_small_counterexample:
  "priv_predict cleaned = PNone \<and> priv_clean_X_data cleaned = PFrame cleaned_table
   \<and> priv_target cleaned = PArray [Num (1 / 4), NaN, Num (3 / 4)]
   \<and> data_split no_files cleaned =
       Inl (ValueError ''Cannot have number of splits n_splits=5 greater than the number of samples'')"
  by (simp add: data_split_def predict_def clean_X_data_def as_frame_def kfold_split_def
      cleaned_def cleaned_table_def with_raw_def init_def)

end
